theory Spec2Isabelle
  imports Main "HOL-Library.Word"
begin

section \<open>Python exceptions\<close>

text \<open>
  The exception kinds that the module \<^verbatim>\<open>oscrypto/_ffi.py\<close> defines, raises or lets
  surface from the two foreign-call engines.  A raise is the \<open>Inl\<close> branch of a sum.
  \<open>MemoryFault\<close> stands for an access to foreign memory that no allocation backs
  (undefined behaviour in the process, made a definite outcome here), and
  \<open>Unmodelled\<close> marks a call of an engine that this development does not describe
  (a type string outside the described grammar, initialisers that need a struct's
  field layout, items of an array of structs past the first); no statement below rests
  on it.
\<close>

datatype py_error =
    ImportError
  | AttributeError
  | TypeError
  | ValueError
  | IndexError
  | OverflowError
  | ArgumentError
  | RuntimeError
  | MemoryFault
  | Unmodelled
  | FFIEngineError
  | LibraryNotFoundError

section \<open>The ctypes engine: type descriptors\<close>

text \<open>
  The ctypes types that the module names.  \<open>Lib n sz\<close> is a type that a library handle
  declares under an attribute (a \<^verbatim>\<open>Structure\<close> subclass or a typedef) of \<open>sz\<close> bytes;
  \<open>POINTER t\<close> is \<^verbatim>\<open>ctypes.POINTER(t)\<close>.  \<^verbatim>\<open>wintypes.ULONG\<close> and
  \<^verbatim>\<open>wintypes.DWORD\<close> are both \<^verbatim>\<open>c_ulong\<close>.
\<close>

datatype ctype =
    C_void_p
  | C_wchar_p
  | C_char_p
  | C_int
  | C_uint
  | C_size_t
  | C_ulong
  | C_char
  | C_byte
  | Lib string nat
  | POINTER ctype
  | ARRAY ctype nat

text \<open>A library handle, as far as this layer consults it: attribute lookup by name.\<close>

type_synonym library = "string \<rightharpoonup> ctype"

text \<open>
  The module-level tables \<^verbatim>\<open>_pointer_types\<close> and \<^verbatim>\<open>_type_map\<close> (lines 151-180),
  after the \<^verbatim>\<open>if sys.platform == 'win32'\<close> block has run.  The argument is
  \<^verbatim>\<open>sys.platform\<close>.
\<close>

definition pointer_types :: "string \<Rightarrow> string list" where
  "pointer_types platform =
     [''void *'', ''wchar_t *'', ''char *''] @
     (if platform = ''win32'' then [''LPSTR'', ''LPWSTR'', ''LPCSTR'', ''LPCWSTR''] else [])"

definition type_map :: "string \<Rightarrow> (string \<times> ctype) list" where
  "type_map platform =
     [(''void *'', C_void_p),
      (''wchar_t *'', C_wchar_p),
      (''char *'', C_char_p),
      (''unsigned char *'', C_char_p),
      (''int'', C_int),
      (''unsigned int'', C_uint),
      (''size_t'', C_size_t)] @
     (if platform = ''win32'' then
        [(''LPSTR'', C_char_p),
         (''LPWSTR'', C_wchar_p),
         (''LPCSTR'', C_char_p),
         (''LPCWSTR'', C_wchar_p),
         (''ULONG'', C_ulong),
         (''DWORD'', C_ulong)]
      else [])"

text \<open>Python's \<^verbatim>\<open>s[-n:]\<close> and \<^verbatim>\<open>s[:-n]\<close> for \<open>n > 0\<close>; a short string is not an error.\<close>

definition last_chars :: "nat \<Rightarrow> string \<Rightarrow> string" where
  "last_chars n s = drop (length s - n) s"

definition drop_last :: "nat \<Rightarrow> string \<Rightarrow> string" where
  "drop_last n s = take (length s - n) s"

text \<open>
  The lookup at lines 190-193: the built-in table first, else
  \<^verbatim>\<open>getattr(library, type_)\<close>, which raises \<^verbatim>\<open>AttributeError\<close> for a missing name.
\<close>

definition lookup_type :: "string \<Rightarrow> library \<Rightarrow> string \<Rightarrow> py_error + ctype" where
  "lookup_type platform library tname =
     (case map_of (type_map platform) tname of
        Some t \<Rightarrow> Inr t
      | None \<Rightarrow> (case library tname of Some t \<Rightarrow> Inr t | None \<Rightarrow> Inl AttributeError))"

text \<open>\<^verbatim>\<open>_is_pointer_type(library, type_)\<close>, lines 182-198.\<close>

definition is_pointer_type :: "string \<Rightarrow> library \<Rightarrow> string \<Rightarrow> py_error + (bool \<times> ctype)" where
  "is_pointer_type platform library tname =
     (let is_double_pointer = (last_chars 3 tname = '' **'');
          type1 = (if is_double_pointer then drop_last 1 tname else tname);
          is_pointer = (last_chars 2 type1 = '' *'' \<and> type1 \<notin> set (pointer_types platform));
          type2 = (if is_pointer then drop_last 2 type1 else type1)
      in case lookup_type platform library type2 of
           Inl e \<Rightarrow> Inl e
         | Inr t \<Rightarrow> Inr (is_pointer, if is_double_pointer then POINTER t else t))"

text \<open>
  The type that \<^verbatim>\<open>cast(library, type_, value)\<close> hands to \<^verbatim>\<open>ctypes.cast\<close>
  (lines 213-216): the resolved name, wrapped once more when the flag is set.
\<close>

definition cast_type :: "string \<Rightarrow> library \<Rightarrow> string \<Rightarrow> py_error + ctype" where
  "cast_type platform library tname =
     (case is_pointer_type platform library tname of
        Inl e \<Rightarrow> Inl e
      | Inr (is_pointer, t) \<Rightarrow> Inr (if is_pointer then POINTER t else t))"

section \<open>Foreign memory\<close>

text \<open>
  Foreign memory is a list of allocated blocks of bytes.  The address of a block is its
  position in the list plus one, so that address \<open>0\<close> is the null pointer and a new
  block never shares its address with an older one.  Pointers in this model refer to the
  start of a block; an access names a byte offset into it.
\<close>

type_synonym byte = "8 word"
type_synonym addr = nat
type_synonym store = "byte list list"

definition block_at :: "store \<Rightarrow> addr \<Rightarrow> byte list option" where
  "block_at s a = (if a = 0 \<or> length s < a then None else Some (s ! (a - 1)))"

definition alloc :: "store \<Rightarrow> byte list \<Rightarrow> addr \<times> store" where
  "alloc s bs = (Suc (length s), s @ [bs])"

definition read_bytes :: "store \<Rightarrow> addr \<Rightarrow> nat \<Rightarrow> nat \<Rightarrow> py_error + byte list" where
  "read_bytes s a off n =
     (case block_at s a of
        None \<Rightarrow> Inl MemoryFault
      | Some bs \<Rightarrow> if off + n \<le> length bs then Inr (take n (drop off bs)) else Inl MemoryFault)"


text \<open>Unsigned little-endian numbers in memory; a pointer takes \<open>ptr_size\<close> bytes.\<close>

definition le_nat :: "byte list \<Rightarrow> nat" where
  "le_nat bs = foldr (\<lambda>b n. unat b + 256 * n) bs 0"

fun nat_le :: "nat \<Rightarrow> nat \<Rightarrow> byte list" where
  "nat_le 0 v = []"
| "nat_le (Suc k) v = of_nat (v mod 256) # nat_le k (v div 256)"

definition ptr_size :: nat where
  "ptr_size = 8"

definition zeros :: "nat \<Rightarrow> byte list" where
  "zeros n = replicate n 0"

text \<open>The bytes of a block up to, not including, the first zero byte (a C string).\<close>

definition c_string :: "byte list \<Rightarrow> py_error + byte list" where
  "c_string bs = (if 0 \<in> set bs then Inr (takeWhile (\<lambda>b. b \<noteq> 0) bs) else Inl MemoryFault)"

section \<open>Python values\<close>

text \<open>
  The C types of the cffi engine, as its parser resolves a type string.  \<open>CStruct n sz\<close>
  is a declared struct of \<open>sz\<close> bytes, and opaque when \<open>sz\<close> is \<open>None\<close>; \<open>CArr t None\<close> is
  the open array type \<^verbatim>\<open>t[]\<close>.
\<close>

datatype cffi_type =
    CVoid
  | CChar
  | CUInt nat
  | CSInt nat
  | CWchar
  | CStruct string "nat option"
  | CPtr cffi_type
  | CArr cffi_type "nat option"

text \<open>
  The host values that cross this layer.  \<open>CData t v n\<close> is a cffi \<^verbatim>\<open>cdata\<close> object of
  type \<open>t\<close>: \<open>v\<close> is the address it refers to (pointer, array and struct types) or the
  number it holds (integer types), and \<open>n\<close> the number of items of an array.
  \<open>PyStr\<close> is host text, a list of code points.
  \<open>CObj t a\<close> is an instance of the ctypes type \<open>t\<close> whose own storage is the block at
  address \<open>a\<close>; the storage of a pointer instance holds the address it points to.
\<close>

datatype pyval =
    PyNone
  | PyBool bool
  | PyInt int
  | PyBytes "byte list"
  | PyStr "nat list"
  | PyList "pyval list"
  | CData cffi_type nat nat
  | CObj ctype addr

text \<open>
  The host types handed to \<^verbatim>\<open>native\<close>: \<^verbatim>\<open>str_cls\<close> and \<^verbatim>\<open>byte_cls\<close> of lines 11-19,
  and the builtins \<^verbatim>\<open>int\<close> and \<^verbatim>\<open>bool\<close>.
\<close>

datatype pytype = Str_cls | Byte_cls | Int_cls | Bool_cls

text \<open>\<^verbatim>\<open>isinstance(value, type_)\<close>; \<^verbatim>\<open>bool\<close> is a subclass of \<^verbatim>\<open>int\<close>.\<close>

fun isinstance :: "pyval \<Rightarrow> pytype \<Rightarrow> bool" where
  "isinstance (PyStr _) Str_cls = True"
| "isinstance (PyBytes _) Byte_cls = True"
| "isinstance (PyInt _) Int_cls = True"
| "isinstance (PyBool _) Int_cls = True"
| "isinstance (PyBool _) Bool_cls = True"
| "isinstance _ _ = False"

section \<open>The cffi engine: the library\<close>

text \<open>
  What follows in this section is cffi itself, the part of it that \<^verbatim>\<open>_ffi.py\<close> calls,
  written from cffi's documentation: an \<^verbatim>\<open>FFI\<close> object resolves type strings against
  the names it has been given by \<^verbatim>\<open>cdef\<close>, and \<^verbatim>\<open>new\<close>, \<^verbatim>\<open>cast\<close>, \<^verbatim>\<open>sizeof\<close>,
  \<^verbatim>\<open>buffer\<close>, \<^verbatim>\<open>string\<close> and item access work on \<^verbatim>\<open>cdata\<close> objects.
\<close>

type_synonym ffi_obj = "string \<rightharpoonup> cffi_type"

text \<open>
  Some of the C names that every \<^verbatim>\<open>FFI\<close> object resolves without a declaration: those
  that the module and the statements below use.  The list is not all of them.
\<close>

definition builtin_types :: "(string \<times> cffi_type) list" where
  "builtin_types =
     [(''void'', CVoid), (''char'', CChar), (''unsigned char'', CUInt 1),
      (''signed char'', CSInt 1), (''int'', CSInt 4), (''unsigned int'', CUInt 4),
      (''size_t'', CUInt 8), (''wchar_t'', CWchar)]"

fun sizeof_type :: "cffi_type \<Rightarrow> nat option" where
  "sizeof_type CVoid = None"
| "sizeof_type CChar = Some 1"
| "sizeof_type (CUInt k) = Some k"
| "sizeof_type (CSInt k) = Some k"
| "sizeof_type CWchar = Some 4"
| "sizeof_type (CStruct _ sz) = sz"
| "sizeof_type (CPtr _) = Some ptr_size"
| "sizeof_type (CArr t None) = None"
| "sizeof_type (CArr t (Some n)) = map_option (\<lambda>k. n * k) (sizeof_type t)"

text \<open>
  Type strings, as far as they are described here: a base name, then any number of
  \<^verbatim>\<open>*\<close>, then at most one \<^verbatim>\<open>[n]\<close> (decimal) or \<^verbatim>\<open>[]\<close>.  The base name is one of the
  C names of \<open>builtin_types\<close> or a name that the object has been given by \<^verbatim>\<open>cdef\<close>.
  A real \<^verbatim>\<open>FFI\<close> object resolves more than that (further C names such as \<^verbatim>\<open>long\<close> or
  \<^verbatim>\<open>uint32_t\<close>, qualifiers, the Windows names on that platform, other declarators) and
  refuses the rest; which of the two happens to a string outside this grammar is not
  described, and the result is \<open>Unmodelled\<close>.
\<close>

definition star_or_space :: "char \<Rightarrow> bool" where
  "star_or_space c = (c = CHR ''*'' \<or> c = CHR '' '')"

definition parse_base :: "ffi_obj \<Rightarrow> string \<Rightarrow> py_error + cffi_type" where
  "parse_base ffi s =
     (case map_of builtin_types s of
        Some t \<Rightarrow> Inr t
      | None \<Rightarrow> (case ffi s of Some t \<Rightarrow> Inr t | None \<Rightarrow> Inl Unmodelled))"

definition parse_pointer :: "ffi_obj \<Rightarrow> string \<Rightarrow> py_error + cffi_type" where
  "parse_pointer ffi s =
     (let suffix = takeWhile star_or_space (rev s);
          base = rev (dropWhile star_or_space (rev s));
          n = length (filter (\<lambda>c. c = CHR ''*'') suffix)
      in map_sum id (CPtr ^^ n) (parse_base ffi base))"

definition parse_nat :: "string \<Rightarrow> nat option" where
  "parse_nat ds =
     (if ds \<noteq> [] \<and> list_all (\<lambda>c. c \<in> set ''0123456789'') ds
      then Some (foldl (\<lambda>n c. 10 * n + (of_char c - 48)) 0 ds)
      else None)"

definition ffi_typeof :: "ffi_obj \<Rightarrow> string \<Rightarrow> py_error + cffi_type" where
  "ffi_typeof ffi s =
     (let r = rev s in
      if r \<noteq> [] \<and> hd r = CHR '']'' then
        (let inner = rev (takeWhile (\<lambda>c. c \<noteq> CHR ''['') (tl r));
             rest = rev (drop 1 (dropWhile (\<lambda>c. c \<noteq> CHR ''['') (tl r)))
         in case parse_pointer ffi rest of
              Inl e \<Rightarrow> Inl e
            | Inr t \<Rightarrow>
                if sizeof_type t = None then Inl ValueError
                else if inner = [] then Inr (CArr t None)
                else (case parse_nat inner of
                        Some n \<Rightarrow> Inr (CArr t (Some n))
                      | None \<Rightarrow> Inl Unmodelled))
      else parse_pointer ffi s)"

text \<open>Which \<^verbatim>\<open>cdata\<close> types hold an address, and which a number.\<close>

fun is_pointer_like :: "cffi_type \<Rightarrow> bool" where
  "is_pointer_like (CPtr _) = True"
| "is_pointer_like (CArr _ _) = True"
| "is_pointer_like _ = False"

fun is_integer_like :: "cffi_type \<Rightarrow> bool" where
  "is_integer_like CChar = True"
| "is_integer_like (CUInt _) = True"
| "is_integer_like (CSInt _) = True"
| "is_integer_like CWchar = True"
| "is_integer_like _ = False"

fun is_char_sized :: "cffi_type \<Rightarrow> bool" where
  "is_char_sized CChar = True"
| "is_char_sized (CUInt k) = (k = 1)"
| "is_char_sized (CSInt k) = (k = 1)"
| "is_char_sized _ = False"

definition array_length :: "cffi_type \<Rightarrow> nat" where
  "array_length t = (case t of CArr _ (Some n) \<Rightarrow> n | _ \<Rightarrow> 0)"

text \<open>The host number that a stored unsigned value of \<open>k\<close> bytes stands for.\<close>

definition signed_value :: "nat \<Rightarrow> nat \<Rightarrow> int" where
  "signed_value k v = (if 2 ^ (8 * k) \<le> 2 * v then int v - 2 ^ (8 * k) else int v)"

definition int_of_item :: "cffi_type \<Rightarrow> nat \<Rightarrow> int" where
  "int_of_item t v = (case t of CSInt k \<Rightarrow> signed_value k v | _ \<Rightarrow> int v)"

text \<open>
  \<^verbatim>\<open>ffi.cast(type, value)\<close>: to a pointer or sized array type from an integer or from
  a \<^verbatim>\<open>cdata\<close> that holds an address or a number; to an integer type likewise, and from
  a one-byte string.  No memory is touched.
\<close>

definition cast_source :: "pyval \<Rightarrow> bool \<Rightarrow> py_error + nat" where
  "cast_source v to_integer =
     (case v of
        PyInt i \<Rightarrow> Inr (nat (i mod 2 ^ (8 * ptr_size)))
      | PyBool b \<Rightarrow> Inr (if b then 1 else 0)
      | PyBytes bs \<Rightarrow> if to_integer \<and> length bs = 1 then Inr (unat (hd bs)) else Inl TypeError
      | CData t a n \<Rightarrow> if is_pointer_like t \<or> is_integer_like t then Inr a else Inl TypeError
      | _ \<Rightarrow> Inl TypeError)"

definition cast_to :: "cffi_type \<Rightarrow> pyval \<Rightarrow> py_error + pyval" where
  "cast_to t v =
     (if is_pointer_like t \<and> sizeof_type t \<noteq> None then
        (case cast_source v False of
           Inl e \<Rightarrow> Inl e
         | Inr a \<Rightarrow> Inr (CData t a (array_length t)))
      else if is_integer_like t then
        (case cast_source v True of
           Inl e \<Rightarrow> Inl e
         | Inr a \<Rightarrow> Inr (CData t (a mod 2 ^ (8 * the (sizeof_type t))) 0))
      else Inl TypeError)"

definition ffi_cast :: "ffi_obj \<Rightarrow> string \<Rightarrow> pyval \<Rightarrow> py_error + pyval" where
  "ffi_cast ffi tname v =
     (case ffi_typeof ffi tname of Inl e \<Rightarrow> Inl e | Inr t \<Rightarrow> cast_to t v)"

text \<open>
  \<^verbatim>\<open>ffi.sizeof(cdata)\<close>: the bytes of an array \<^verbatim>\<open>cdata\<close> are its items, those of any
  other \<^verbatim>\<open>cdata\<close> the size of its type.
\<close>

definition ffi_sizeof :: "pyval \<Rightarrow> py_error + nat" where
  "ffi_sizeof v =
     (case v of
        CData (CArr el _) a n \<Rightarrow>
          (case sizeof_type el of None \<Rightarrow> Inl TypeError | Some k \<Rightarrow> Inr (n * k))
      | CData t a n \<Rightarrow>
          (case sizeof_type t of None \<Rightarrow> Inl TypeError | Some k \<Rightarrow> Inr k)
      | _ \<Rightarrow> Inl TypeError)"

text \<open>
  The bytes that initialise one item of type \<open>t\<close> from a host value.  An integer out of
  the item's range is refused.
\<close>

definition encode_item :: "cffi_type \<Rightarrow> pyval \<Rightarrow> py_error + byte list" where
  "encode_item t v =
     (case (t, v) of
        (CChar, PyBytes bs) \<Rightarrow> if length bs = 1 then Inr bs else Inl TypeError
      | (CUInt k, PyInt i) \<Rightarrow>
          if 0 \<le> i \<and> i < 2 ^ (8 * k) then Inr (nat_le k (nat i)) else Inl OverflowError
      | (CSInt k, PyInt i) \<Rightarrow>
          if - (2 ^ (8 * k)) \<le> 2 * i \<and> 2 * i < 2 ^ (8 * k)
          then Inr (nat_le k (nat (i mod 2 ^ (8 * k)))) else Inl OverflowError
      | (CWchar, PyStr cs) \<Rightarrow> if length cs = 1 then Inr (nat_le 4 (hd cs)) else Inl TypeError
      | (CPtr _, CData t' a n) \<Rightarrow>
          if is_pointer_like t' then Inr (nat_le ptr_size a) else Inl TypeError
      | (CStruct _ _, _) \<Rightarrow> Inl Unmodelled
      | (CArr _ _, _) \<Rightarrow> Inl Unmodelled
      | _ \<Rightarrow> Inl TypeError)"

fun encode_items :: "cffi_type \<Rightarrow> pyval list \<Rightarrow> py_error + byte list" where
  "encode_items t [] = Inr []"
| "encode_items t (v # vs) =
     (case encode_item t v of
        Inl e \<Rightarrow> Inl e
      | Inr bs \<Rightarrow> (case encode_items t vs of Inl e \<Rightarrow> Inl e | Inr rest \<Rightarrow> Inr (bs @ rest)))"

text \<open>
  The items and the contents of a new array of item type \<open>el\<close> (of \<open>k\<close> bytes each).
  A byte string as initialiser is followed by a zero byte when the length is open, and
  zero-padded to a given length.
\<close>

definition array_contents ::
  "cffi_type \<Rightarrow> nat \<Rightarrow> nat option \<Rightarrow> pyval option \<Rightarrow> py_error + (nat \<times> byte list)" where
  "array_contents el k len init =
     (case init of
        None \<Rightarrow> (case len of None \<Rightarrow> Inl TypeError | Some n \<Rightarrow> Inr (n, zeros (n * k)))
      | Some (PyInt i) \<Rightarrow>
          (case len of
             None \<Rightarrow> if i < 0 then Inl ValueError else Inr (nat i, zeros (nat i * k))
           | Some n \<Rightarrow> Inl TypeError)
      | Some (PyBytes bs) \<Rightarrow>
          if is_char_sized el then
            (case len of
               None \<Rightarrow> Inr (length bs + 1, bs @ [0])
             | Some n \<Rightarrow>
                 if length bs \<le> n then Inr (n, bs @ zeros (n - length bs)) else Inl IndexError)
          else Inl TypeError
      | Some (PyList vs) \<Rightarrow>
          (case encode_items el vs of
             Inl e \<Rightarrow> Inl e
           | Inr bs \<Rightarrow>
               (case len of
                  None \<Rightarrow> Inr (length vs, bs)
                | Some n \<Rightarrow>
                    if length vs \<le> n then Inr (n, bs @ zeros (n * k - length bs))
                    else Inl IndexError))
      | Some _ \<Rightarrow> Inl TypeError)"

text \<open>
  \<^verbatim>\<open>ffi.new(type, init)\<close>: the type is a pointer or an array type; the memory is new,
  zeroed, then initialised.  The result owns a block of its own.
\<close>

definition ffi_new ::
  "ffi_obj \<Rightarrow> string \<Rightarrow> pyval option \<Rightarrow> store \<Rightarrow> py_error + (pyval \<times> store)" where
  "ffi_new ffi tname init s =
     (case ffi_typeof ffi tname of
        Inl e \<Rightarrow> Inl e
      | Inr (CPtr t) \<Rightarrow>
          (case sizeof_type t of
             None \<Rightarrow> Inl TypeError
           | Some k \<Rightarrow>
               (case init of
                  None \<Rightarrow> (let (a, s') = alloc s (zeros k) in Inr (CData (CPtr t) a 0, s'))
                | Some v \<Rightarrow>
                    (case encode_item t v of
                       Inl e \<Rightarrow> Inl e
                     | Inr bs \<Rightarrow> (let (a, s') = alloc s bs in Inr (CData (CPtr t) a 0, s')))))
      | Inr (CArr el len) \<Rightarrow>
          (case sizeof_type el of
             None \<Rightarrow> Inl TypeError
           | Some k \<Rightarrow>
               (case array_contents el k len init of
                  Inl e \<Rightarrow> Inl e
                | Inr (n, bs) \<Rightarrow>
                    (let (a, s') = alloc s bs in Inr (CData (CArr el len) a n, s'))))
      | Inr _ \<Rightarrow> Inl TypeError)"

text \<open>
  \<^verbatim>\<open>ffi.buffer(cdata, size)\<close>: the memory a pointer or array \<^verbatim>\<open>cdata\<close> refers to, as an
  address and a length; \<^verbatim>\<open>buf[:]\<close> reads it, \<^verbatim>\<open>buf[:] = data\<close> overwrites it with data
  of the same length.
\<close>

definition ffi_buffer :: "pyval \<Rightarrow> nat option \<Rightarrow> py_error + (addr \<times> nat)" where
  "ffi_buffer v maxlen =
     (case v of
        CData (CPtr t) a n \<Rightarrow>
          (case maxlen of
             Some k \<Rightarrow> Inr (a, k)
           | None \<Rightarrow> (case sizeof_type t of None \<Rightarrow> Inl TypeError | Some k \<Rightarrow> Inr (a, k)))
      | CData (CArr el len) a n \<Rightarrow>
          (case maxlen of
             Some k \<Rightarrow> Inr (a, k)
           | None \<Rightarrow> (case sizeof_type el of None \<Rightarrow> Inl TypeError | Some k \<Rightarrow> Inr (a, n * k)))
      | _ \<Rightarrow> Inl TypeError)"

definition buffer_read :: "store \<Rightarrow> addr \<times> nat \<Rightarrow> py_error + byte list" where
  "buffer_read s buf = read_bytes s (fst buf) 0 (snd buf)"


text \<open>Wide characters in memory: units of four bytes, up to a zero unit.\<close>

fun wide_units :: "byte list \<Rightarrow> nat list" where
  "wide_units (a # b # c # d # rest) = le_nat [a, b, c, d] # wide_units rest"
| "wide_units _ = []"

definition wide_string :: "byte list \<Rightarrow> py_error + nat list" where
  "wide_string bs =
     (if 0 \<in> set (wide_units bs) then Inr (takeWhile (\<lambda>u. u \<noteq> 0) (wide_units bs))
      else Inl MemoryFault)"

text \<open>
  \<^verbatim>\<open>ffi.string(cdata)\<close>: the zero-terminated string that a character pointer or array
  refers to; an array without a terminator gives all its items.  A null pointer and a
  value that is no \<^verbatim>\<open>cdata\<close> are refused.
\<close>

definition ffi_string :: "store \<Rightarrow> pyval \<Rightarrow> py_error + pyval" where
  "ffi_string s v =
     (case v of
        CData (CPtr t) a n \<Rightarrow>
          if a = 0 then Inl RuntimeError
          else (case block_at s a of
                  None \<Rightarrow> Inl MemoryFault
                | Some bs \<Rightarrow>
                    if is_char_sized t then map_sum id PyBytes (c_string bs)
                    else if t = CWchar then map_sum id PyStr (wide_string bs)
                    else Inl TypeError)
      | CData (CArr el len) a n \<Rightarrow>
          (case block_at s a of
             None \<Rightarrow> Inl MemoryFault
           | Some bs \<Rightarrow>
               if is_char_sized el then Inr (PyBytes (takeWhile (\<lambda>b. b \<noteq> 0) (take n bs)))
               else if el = CWchar
                 then Inr (PyStr (takeWhile (\<lambda>u. u \<noteq> 0) (wide_units (take (4 * n) bs))))
               else Inl TypeError)
      | CData CChar a n \<Rightarrow> Inr (PyBytes [of_nat a])
      | CData CWchar a n \<Rightarrow> Inr (PyStr [a])
      | _ \<Rightarrow> Inl TypeError)"

text \<open>
  Item access \<^verbatim>\<open>cdata[i]\<close> on a pointer or array \<^verbatim>\<open>cdata\<close>: an array checks its bounds,
  a pointer to \<^verbatim>\<open>void\<close> or to an opaque type cannot be indexed.  An integer item comes
  back as a host number, a character as a one-byte string, a pointer item as a new
  pointer \<^verbatim>\<open>cdata\<close>, a struct as a \<^verbatim>\<open>cdata\<close> that refers to the same memory.
\<close>

definition item_value :: "cffi_type \<Rightarrow> addr \<Rightarrow> nat \<Rightarrow> byte list \<Rightarrow> py_error + pyval" where
  "item_value el a i bs =
     (case el of
        CChar \<Rightarrow> Inr (PyBytes bs)
      | CUInt k \<Rightarrow> Inr (PyInt (int (le_nat bs)))
      | CSInt k \<Rightarrow> Inr (PyInt (signed_value k (le_nat bs)))
      | CWchar \<Rightarrow> Inr (PyStr [le_nat bs])
      | CPtr t \<Rightarrow> Inr (CData (CPtr t) (le_nat bs) 0)
      | CStruct n sz \<Rightarrow> if i = 0 then Inr (CData (CStruct n sz) a 0) else Inl Unmodelled
      | CArr t len \<Rightarrow> if i = 0 then Inr (CData (CArr t len) a (array_length el)) else Inl Unmodelled
      | CVoid \<Rightarrow> Inl TypeError)"

definition cdata_item :: "store \<Rightarrow> cffi_type \<Rightarrow> addr \<Rightarrow> nat \<Rightarrow> py_error + pyval" where
  "cdata_item s el a i =
     (case sizeof_type el of
        None \<Rightarrow> Inl TypeError
      | Some k \<Rightarrow>
          (case read_bytes s a (i * k) k of
             Inl e \<Rightarrow> Inl e
           | Inr bs \<Rightarrow> item_value el a i bs))"

definition cffi_getitem :: "store \<Rightarrow> pyval \<Rightarrow> nat \<Rightarrow> py_error + pyval" where
  "cffi_getitem s v i =
     (case v of
        CData (CPtr t) a n \<Rightarrow> cdata_item s t a i
      | CData (CArr el len) a n \<Rightarrow> if i < n then cdata_item s el a i else Inl IndexError
      | PyList vs \<Rightarrow> if i < length vs then Inr (vs ! i) else Inl IndexError
      | PyBytes bs \<Rightarrow> if i < length bs then Inr (PyInt (int (unat (bs ! i)))) else Inl IndexError
      | PyStr cs \<Rightarrow> if i < length cs then Inr (PyStr [cs ! i]) else Inl IndexError
      | _ \<Rightarrow> Inl TypeError)"

text \<open>
  \<^verbatim>\<open>x == ffi.NULL\<close>: a \<^verbatim>\<open>cdata\<close> that holds an address is compared by address; a
  \<^verbatim>\<open>cdata\<close> number and every other host value is unequal to \<^verbatim>\<open>NULL\<close>.
\<close>

definition eq_NULL :: "pyval \<Rightarrow> bool" where
  "eq_NULL v = (case v of CData t a n \<Rightarrow> a = 0 \<and> \<not> is_integer_like t | _ \<Rightarrow> False)"

section \<open>The ctypes engine: the library\<close>

text \<open>
  What follows in this section is ctypes itself, the part of it that \<^verbatim>\<open>_ffi.py\<close> calls,
  written from the ctypes documentation.  Every instance has storage of its own; the
  storage of a pointer instance holds an address.  Sizes are those of a 64-bit host
  (\<^verbatim>\<open>c_ulong\<close> as on Windows, where the type table has it).
\<close>

fun ctypes_sizeof_type :: "ctype \<Rightarrow> nat" where
  "ctypes_sizeof_type C_void_p = ptr_size"
| "ctypes_sizeof_type C_wchar_p = ptr_size"
| "ctypes_sizeof_type C_char_p = ptr_size"
| "ctypes_sizeof_type C_int = 4"
| "ctypes_sizeof_type C_uint = 4"
| "ctypes_sizeof_type C_size_t = 8"
| "ctypes_sizeof_type C_ulong = 4"
| "ctypes_sizeof_type C_char = 1"
| "ctypes_sizeof_type C_byte = 1"
| "ctypes_sizeof_type (Lib _ sz) = sz"
| "ctypes_sizeof_type (POINTER _) = ptr_size"
| "ctypes_sizeof_type (ARRAY t n) = n * ctypes_sizeof_type t"

text \<open>
  The fundamental types: reading an item or a field of such a type gives a host value,
  not a ctypes instance.
\<close>

fun is_simple :: "ctype \<Rightarrow> bool" where
  "is_simple (Lib _ _) = False"
| "is_simple (POINTER _) = False"
| "is_simple (ARRAY _ _) = False"
| "is_simple _ = True"

fun is_pointer_ctype :: "ctype \<Rightarrow> bool" where
  "is_pointer_ctype C_void_p = True"
| "is_pointer_ctype C_char_p = True"
| "is_pointer_ctype C_wchar_p = True"
| "is_pointer_ctype (POINTER _) = True"
| "is_pointer_ctype _ = False"

text \<open>The host value of the stored bytes \<open>bs\<close> of a fundamental type.\<close>

definition simple_value :: "store \<Rightarrow> ctype \<Rightarrow> byte list \<Rightarrow> py_error + pyval" where
  "simple_value s t bs =
     (case t of
        C_int \<Rightarrow> Inr (PyInt (signed_value 4 (le_nat bs)))
      | C_byte \<Rightarrow> Inr (PyInt (signed_value 1 (le_nat bs)))
      | C_uint \<Rightarrow> Inr (PyInt (int (le_nat bs)))
      | C_size_t \<Rightarrow> Inr (PyInt (int (le_nat bs)))
      | C_ulong \<Rightarrow> Inr (PyInt (int (le_nat bs)))
      | C_char \<Rightarrow> Inr (PyBytes bs)
      | C_void_p \<Rightarrow> Inr (if le_nat bs = 0 then PyNone else PyInt (int (le_nat bs)))
      | C_char_p \<Rightarrow>
          if le_nat bs = 0 then Inr PyNone
          else (case block_at s (le_nat bs) of
                  None \<Rightarrow> Inl MemoryFault
                | Some target \<Rightarrow> map_sum id PyBytes (c_string target))
      | C_wchar_p \<Rightarrow>
          if le_nat bs = 0 then Inr PyNone
          else (case block_at s (le_nat bs) of
                  None \<Rightarrow> Inl MemoryFault
                | Some target \<Rightarrow> map_sum id PyStr (wide_string target))
      | _ \<Rightarrow> Inl TypeError)"

text \<open>The address that the storage of a pointer instance holds.\<close>

definition pointer_target :: "store \<Rightarrow> addr \<Rightarrow> py_error + addr" where
  "pointer_target s a = map_sum id le_nat (read_bytes s a 0 ptr_size)"

text \<open>
  Item \<open>i\<close> of type \<open>t\<close> in the memory at \<open>base\<close>: a host value for a fundamental type,
  else an instance that shares the memory.
\<close>

definition ctypes_item :: "store \<Rightarrow> ctype \<Rightarrow> addr \<Rightarrow> nat \<Rightarrow> py_error + pyval" where
  "ctypes_item s t base i =
     (if is_simple t then
        (case read_bytes s base (i * ctypes_sizeof_type t) (ctypes_sizeof_type t) of
           Inl e \<Rightarrow> Inl e
         | Inr bs \<Rightarrow> simple_value s t bs)
      else if i = 0 then Inr (CObj t base)
      else Inl Unmodelled)"

text \<open>\<^verbatim>\<open>obj[i]\<close>: a null pointer refuses the access, an array checks its bounds.\<close>

definition ctypes_getitem :: "store \<Rightarrow> pyval \<Rightarrow> nat \<Rightarrow> py_error + pyval" where
  "ctypes_getitem s v i =
     (case v of
        CObj (POINTER t) a \<Rightarrow>
          (case pointer_target s a of
             Inl e \<Rightarrow> Inl e
           | Inr target \<Rightarrow> if target = 0 then Inl ValueError else ctypes_item s t target i)
      | CObj (ARRAY t n) a \<Rightarrow> if i < n then ctypes_item s t a i else Inl IndexError
      | PyList vs \<Rightarrow> if i < length vs then Inr (vs ! i) else Inl IndexError
      | PyBytes bs \<Rightarrow> if i < length bs then Inr (PyInt (int (unat (bs ! i)))) else Inl IndexError
      | PyStr cs \<Rightarrow> if i < length cs then Inr (PyStr [cs ! i]) else Inl IndexError
      | _ \<Rightarrow> Inl TypeError)"

text \<open>\<^verbatim>\<open>obj.contents\<close>: the instance a pointer instance points to; only pointers have it.\<close>

definition ctypes_contents :: "store \<Rightarrow> pyval \<Rightarrow> py_error + pyval" where
  "ctypes_contents s v =
     (case v of
        CObj (POINTER t) a \<Rightarrow>
          (case pointer_target s a of
             Inl e \<Rightarrow> Inl e
           | Inr target \<Rightarrow> if target = 0 then Inl ValueError else Inr (CObj t target))
      | _ \<Rightarrow> Inl AttributeError)"

text \<open>
  \<^verbatim>\<open>bool(obj)\<close>: a pointer instance is true when it is not null, an instance of a
  fundamental type when its storage is not all zero, an array when it has items; every
  other instance is true.  Host values follow the host's rule.
\<close>

definition py_bool :: "store \<Rightarrow> pyval \<Rightarrow> py_error + bool" where
  "py_bool s v =
     (case v of
        PyNone \<Rightarrow> Inr False
      | PyBool b \<Rightarrow> Inr b
      | PyInt i \<Rightarrow> Inr (i \<noteq> 0)
      | PyBytes bs \<Rightarrow> Inr (bs \<noteq> [])
      | PyStr cs \<Rightarrow> Inr (cs \<noteq> [])
      | PyList vs \<Rightarrow> Inr (vs \<noteq> [])
      | CData t a n \<Rightarrow> Inr (case t of CStruct _ _ \<Rightarrow> True | _ \<Rightarrow> a \<noteq> 0)
      | CObj (ARRAY t n) a \<Rightarrow> Inr (n \<noteq> 0)
      | CObj (Lib _ _) a \<Rightarrow> Inr True
      | CObj t a \<Rightarrow>
          (case read_bytes s a 0 (ctypes_sizeof_type t) of
             Inl e \<Rightarrow> Inl e
           | Inr bs \<Rightarrow> Inr (le_nat bs \<noteq> 0)))"

text \<open>
  \<^verbatim>\<open>ctypes.create_string_buffer(init)\<close>: from a byte string, a character array one item
  longer than the string, the last item zero; from a number, a zeroed array of that size.
\<close>

definition create_string_buffer :: "pyval \<Rightarrow> store \<Rightarrow> py_error + (pyval \<times> store)" where
  "create_string_buffer init s =
     (case init of
        PyBytes bs \<Rightarrow>
          (let (a, s') = alloc s (bs @ [0]) in Inr (CObj (ARRAY C_char (length bs + 1)) a, s'))
      | PyInt i \<Rightarrow>
          if i < 0 then Inl ValueError
          else (let (a, s') = alloc s (zeros (nat i)) in Inr (CObj (ARRAY C_char (nat i)) a, s'))
      | _ \<Rightarrow> Inl TypeError)"

text \<open>\<^verbatim>\<open>buf.raw\<close>: all the bytes of a character array; no other instance has it.\<close>

definition ctypes_raw :: "store \<Rightarrow> pyval \<Rightarrow> py_error + byte list" where
  "ctypes_raw s v =
     (case v of
        CObj (ARRAY C_char n) a \<Rightarrow> read_bytes s a 0 n
      | _ \<Rightarrow> Inl AttributeError)"

text \<open>
  \<^verbatim>\<open>obj.value\<close>: the host value of an instance of a fundamental type, and the bytes of
  a character array up to the first zero.
\<close>

definition ctypes_value :: "store \<Rightarrow> pyval \<Rightarrow> py_error + pyval" where
  "ctypes_value s v =
     (case v of
        CObj (ARRAY C_char n) a \<Rightarrow>
          (case read_bytes s a 0 n of
             Inl e \<Rightarrow> Inl e
           | Inr bs \<Rightarrow> Inr (PyBytes (takeWhile (\<lambda>b. b \<noteq> 0) bs)))
      | CObj t a \<Rightarrow>
          if is_simple t then
            (case read_bytes s a 0 (ctypes_sizeof_type t) of
               Inl e \<Rightarrow> Inl e
             | Inr bs \<Rightarrow> simple_value s t bs)
          else Inl AttributeError
      | _ \<Rightarrow> Inl AttributeError)"

text \<open>
  The address that ctypes passes to a foreign function for an argument declared
  \<^verbatim>\<open>c_void_p\<close>: \<^verbatim>\<open>None\<close> is null, a number is the address, a pointer instance gives the
  address it holds, an array its own storage.
\<close>

definition as_address :: "store \<Rightarrow> pyval \<Rightarrow> py_error + addr" where
  "as_address s v =
     (case v of
        PyNone \<Rightarrow> Inr 0
      | PyInt i \<Rightarrow> Inr (nat (i mod 2 ^ (8 * ptr_size)))
      | CObj (ARRAY t n) a \<Rightarrow> Inr a
      | CObj t a \<Rightarrow> if is_pointer_ctype t then pointer_target s a else Inl ArgumentError
      | _ \<Rightarrow> Inl ArgumentError)"

text \<open>
  The \<open>n\<close> bytes that a foreign function reads through such an argument.  A host byte
  string is passed as the address of its own bytes, which a zero byte follows.
\<close>

definition read_argument :: "store \<Rightarrow> pyval \<Rightarrow> nat \<Rightarrow> py_error + byte list" where
  "read_argument s v n =
     (case v of
        PyBytes bs \<Rightarrow> if n \<le> length bs + 1 then Inr (take n (bs @ [0])) else Inl MemoryFault
      | _ \<Rightarrow> (case as_address s v of Inl e \<Rightarrow> Inl e | Inr a \<Rightarrow> read_bytes s a 0 n))"

text \<open>
  \<^verbatim>\<open>ctypes.string_at(ptr, size)\<close>, \<^verbatim>\<open>ctypes.memmove(dst, src, count)\<close>,
  \<^verbatim>\<open>ctypes.addressof(obj)\<close> and \<^verbatim>\<open>ctypes.sizeof(obj)\<close>.  A size that is \<^verbatim>\<open>None\<close> is not
  an argument \<^verbatim>\<open>string_at\<close> accepts.
\<close>

definition string_at :: "store \<Rightarrow> pyval \<Rightarrow> nat option \<Rightarrow> py_error + byte list" where
  "string_at s ptr size_opt =
     (case size_opt of None \<Rightarrow> Inl ArgumentError | Some n \<Rightarrow> read_argument s ptr n)"


definition addressof :: "pyval \<Rightarrow> py_error + addr" where
  "addressof v = (case v of CObj t a \<Rightarrow> Inr a | _ \<Rightarrow> Inl TypeError)"


text \<open>
  \<^verbatim>\<open>ctypes.pointer(obj)\<close> and \<^verbatim>\<open>ctypes.cast(obj, type)\<close>: a new pointer instance, whose
  storage holds the address of \<open>obj\<close>'s storage, or the address \<open>obj\<close> stands for.
\<close>

definition ctypes_pointer :: "pyval \<Rightarrow> store \<Rightarrow> py_error + (pyval \<times> store)" where
  "ctypes_pointer v s =
     (case v of
        CObj t a \<Rightarrow> (let (p, s') = alloc s (nat_le ptr_size a) in Inr (CObj (POINTER t) p, s'))
      | _ \<Rightarrow> Inl TypeError)"

definition ctypes_cast :: "pyval \<Rightarrow> ctype \<Rightarrow> store \<Rightarrow> py_error + (pyval \<times> store)" where
  "ctypes_cast v t s =
     (if is_pointer_ctype t then
        (case v of
           PyBytes bs \<Rightarrow>
             (let (b, s1) = alloc s (bs @ [0]);
                  (p, s2) = alloc s1 (nat_le ptr_size b)
              in Inr (CObj t p, s2))
         | _ \<Rightarrow>
             (case as_address s v of
                Inl e \<Rightarrow> Inl e
              | Inr a \<Rightarrow> (let (p, s') = alloc s (nat_le ptr_size a) in Inr (CObj t p, s'))))
      else Inl TypeError)"

text \<open>
  Calling a ctypes type: without an argument the instance is zeroed.  A number
  initialises an integer type (reduced to its width) and the pointer types that take an
  address; a byte string initialises \<^verbatim>\<open>c_char\<close>, \<^verbatim>\<open>c_char_p\<close> and \<^verbatim>\<open>c_void_p\<close>; an
  instance of \<open>t\<close> initialises \<open>POINTER t\<close>.
\<close>

definition ctypes_construct ::
  "ctype \<Rightarrow> pyval option \<Rightarrow> store \<Rightarrow> py_error + (pyval \<times> store)" where
  "ctypes_construct t init s =
     (case init of
        None \<Rightarrow> (let (a, s') = alloc s (zeros (ctypes_sizeof_type t)) in Inr (CObj t a, s'))
      | Some (PyInt i) \<Rightarrow>
          if is_simple t \<and> t \<noteq> C_char then
            (let k = ctypes_sizeof_type t;
                 (a, s') = alloc s (nat_le k (nat (i mod 2 ^ (8 * k))))
             in Inr (CObj t a, s'))
          else if is_simple t then Inl TypeError
          else if is_pointer_ctype t then Inl TypeError
          else Inl Unmodelled
      | Some (PyBytes bs) \<Rightarrow>
          if t = C_char then
            (if length bs = 1 then (let (a, s') = alloc s bs in Inr (CObj t a, s'))
             else Inl TypeError)
          else if t = C_char_p \<or> t = C_void_p then
            (let (b, s1) = alloc s (bs @ [0]);
                 (a, s2) = alloc s1 (nat_le ptr_size b)
             in Inr (CObj t a, s2))
          else if is_simple t \<or> is_pointer_ctype t then Inl TypeError
          else Inl Unmodelled
      | Some (CObj t' a') \<Rightarrow>
          if t = POINTER t' then
            (let (a, s') = alloc s (nat_le ptr_size a') in Inr (CObj t a, s'))
          else if is_simple t \<or> is_pointer_ctype t then Inl TypeError
          else Inl Unmodelled
      | Some _ \<Rightarrow> if is_simple t \<or> is_pointer_ctype t then Inl TypeError else Inl Unmodelled)"

section \<open>Host operations shared by both engines\<close>

text \<open>Sequencing of fallible steps: the first raise ends the computation.\<close>

definition and_then :: "py_error + 'a \<Rightarrow> ('a \<Rightarrow> py_error + 'b) \<Rightarrow> py_error + 'b" where
  "and_then m f = (case m of Inl e \<Rightarrow> Inl e | Inr x \<Rightarrow> f x)"

text \<open>
  Calling a host type on a value, \<^verbatim>\<open>type_(value)\<close>.  \<^verbatim>\<open>int\<close> of a number \<^verbatim>\<open>cdata\<close> is
  its value; \<^verbatim>\<open>bool\<close> is the truth value; text and byte strings pass through their own
  type.  Conversions that depend on the host's version are left out.
\<close>

definition py_construct :: "store \<Rightarrow> pytype \<Rightarrow> pyval \<Rightarrow> py_error + pyval" where
  "py_construct s T v =
     (case T of
        Int_cls \<Rightarrow>
          (case v of
             PyInt i \<Rightarrow> Inr (PyInt i)
           | PyBool b \<Rightarrow> Inr (PyInt (if b then 1 else 0))
           | CData t a n \<Rightarrow> if is_integer_like t then Inr (PyInt (int_of_item t a)) else Inl TypeError
           | PyBytes bs \<Rightarrow> Inl Unmodelled
           | PyStr cs \<Rightarrow> Inl Unmodelled
           | _ \<Rightarrow> Inl TypeError)
      | Bool_cls \<Rightarrow> map_sum id PyBool (py_bool s v)
      | Byte_cls \<Rightarrow> (case v of PyBytes bs \<Rightarrow> Inr (PyBytes bs) | _ \<Rightarrow> Inl Unmodelled)
      | Str_cls \<Rightarrow> (case v of PyStr cs \<Rightarrow> Inr (PyStr cs) | _ \<Rightarrow> Inl Unmodelled))"

text \<open>\<^verbatim>\<open>'%s' % n\<close> for a host integer: its decimal digits, with a sign when negative.\<close>

function str_nat :: "nat \<Rightarrow> string" where
  "str_nat n =
     (if n < 10 then [char_of (48 + n)] else str_nat (n div 10) @ [char_of (48 + n mod 10)])"
  by pat_completeness auto
termination
  by (relation "measure id") auto

definition str_int :: "int \<Rightarrow> string" where
  "str_int i = (if i < 0 then CHR ''-'' # str_nat (nat (- i)) else str_nat (nat i))"

section \<open>The cffi engine: the functions of the module\<close>

text \<open>
  The module defines every function twice under one name, once per engine; here the
  two carry the prefixes \<open>cffi_\<close> and \<open>ctypes_\<close>, and the module's names that begin
  with an underscore are written without it.

  Lines 25-36.  \<^verbatim>\<open>ffi = FFI()\<close> has no declarations of its own; \<^verbatim>\<open>_ffi_registry\<close> maps a
  library to the \<^verbatim>\<open>FFI\<close> object registered for it.
\<close>

definition ffi :: ffi_obj where
  "ffi = Map.empty"

definition register_ffi :: "('l \<rightharpoonup> ffi_obj) \<Rightarrow> 'l \<Rightarrow> ffi_obj \<Rightarrow> ('l \<rightharpoonup> ffi_obj)" where
  "register_ffi ffi_registry library ffi_obj = ffi_registry(library \<mapsto> ffi_obj)"

definition get_ffi :: "('l \<rightharpoonup> ffi_obj) \<Rightarrow> 'l \<Rightarrow> ffi_obj" where
  "get_ffi ffi_registry library =
     (case ffi_registry library of Some ffi_obj \<Rightarrow> ffi_obj | None \<Rightarrow> ffi)"

text \<open>Lines 38-67.\<close>

definition cffi_buffer_from_bytes :: "pyval \<Rightarrow> store \<Rightarrow> py_error + (pyval \<times> store)" where
  "cffi_buffer_from_bytes initializer s = ffi_new ffi ''unsigned char[]'' (Some initializer) s"

definition cffi_buffer_pointer :: "pyval \<Rightarrow> store \<Rightarrow> py_error + (pyval \<times> store)" where
  "cffi_buffer_pointer buffer s = ffi_new ffi ''unsigned char *[]'' (Some (PyList [buffer])) s"

definition cffi_cast :: "('l \<rightharpoonup> ffi_obj) \<Rightarrow> 'l \<Rightarrow> string \<Rightarrow> pyval \<Rightarrow> py_error + pyval" where
  "cffi_cast ffi_registry library tname v = ffi_cast (get_ffi ffi_registry library) tname v"


definition cffi_bytes_from_buffer :: "store \<Rightarrow> pyval \<Rightarrow> nat option \<Rightarrow> py_error + pyval" where
  "cffi_bytes_from_buffer s buffer maxlen =
     (case maxlen of
        Some m \<Rightarrow> and_then (ffi_buffer buffer (Some m)) (\<lambda>b. map_sum id PyBytes (buffer_read s b))
      | None \<Rightarrow> and_then (ffi_buffer buffer None) (\<lambda>b. map_sum id PyBytes (buffer_read s b)))"

definition cffi_byte_string_from_buffer :: "store \<Rightarrow> pyval \<Rightarrow> py_error + pyval" where
  "cffi_byte_string_from_buffer s buffer = ffi_string s buffer"

definition cffi_byte_array :: "pyval \<Rightarrow> pyval" where
  "cffi_byte_array byte_string = byte_string"

definition NULL :: pyval where
  "NULL = CData (CPtr CVoid) 0 0"

definition cffi_null :: pyval where
  "cffi_null = NULL"

text \<open>\<^verbatim>\<open>is_null\<close>, lines 69-74.\<close>

definition cffi_is_null :: "store \<Rightarrow> pyval \<Rightarrow> py_error + bool" where
  "cffi_is_null s point =
     (if eq_NULL point then Inr True
      else and_then (cffi_getitem s point 0)
             (\<lambda>item. if eq_NULL item then Inr True else Inr False))"

text \<open>
  \<^verbatim>\<open>new\<close>, lines 79-87.  The argument \<open>v\<close> is \<open>PyNone\<close> when the caller gives none.
\<close>

definition cffi_new ::
  "('l \<rightharpoonup> ffi_obj) \<Rightarrow> 'l \<Rightarrow> string \<Rightarrow> pyval \<Rightarrow> store \<Rightarrow> py_error + (pyval \<times> store)" where
  "cffi_new ffi_registry library tname v s =
     (let ffi_obj = get_ffi ffi_registry library;
          params = (if v \<noteq> PyNone then Some v else None)
      in if tname \<in> {''BCRYPT_KEY_HANDLE'', ''BCRYPT_ALG_HANDLE''}
         then map_sum id (\<lambda>c. (c, s)) (ffi_cast ffi_obj tname (PyInt 0))
         else ffi_new ffi_obj tname params s)"

text \<open>\<^verbatim>\<open>native\<close>, \<^verbatim>\<open>deref\<close> and \<^verbatim>\<open>unwrap\<close>, lines 89-100.\<close>

definition cffi_native :: "store \<Rightarrow> pytype \<Rightarrow> pyval \<Rightarrow> py_error + pyval" where
  "cffi_native s T v =
     (if T = Str_cls then ffi_string s v
      else if T = Byte_cls then
        and_then (ffi_buffer v None) (\<lambda>b. map_sum id PyBytes (buffer_read s b))
      else py_construct s T v)"

definition cffi_deref :: "store \<Rightarrow> pyval \<Rightarrow> py_error + pyval" where
  "cffi_deref s point = cffi_getitem s point 0"

definition cffi_unwrap :: "store \<Rightarrow> pyval \<Rightarrow> py_error + pyval" where
  "cffi_unwrap s point = cffi_getitem s point 0"

text \<open>
  \<^verbatim>\<open>struct\<close>, \<^verbatim>\<open>struct_bytes\<close> and \<^verbatim>\<open>struct_from_buffer\<close>, lines 102-116;
  \<open>struct_pointer_type name\<close> is \<^verbatim>\<open>'struct %s *' % name\<close>.
\<close>

definition struct_pointer_type :: "string \<Rightarrow> string" where
  "struct_pointer_type name = ''struct '' @ name @ '' *''"

definition cffi_struct ::
  "('l \<rightharpoonup> ffi_obj) \<Rightarrow> 'l \<Rightarrow> string \<Rightarrow> store \<Rightarrow> py_error + (pyval \<times> store)" where
  "cffi_struct ffi_registry library name s =
     ffi_new (get_ffi ffi_registry library) (struct_pointer_type name) None s"



text \<open>
  \<^verbatim>\<open>array_from_pointer\<close>, lines 118-142.  \<open>string_types\<close> is the literal table of lines
  126-134; the loop over \<^verbatim>\<open>range(0, size)\<close> is \<open>cffi_items\<close>.
\<close>

definition string_types :: "string list" where
  "string_types =
     [''LPSTR'', ''LPCSTR'', ''LPWSTR'', ''LPCWSTR'', ''char *'', ''unsigned char *'',
      ''wchar_t *'']"

fun cffi_items :: "store \<Rightarrow> bool \<Rightarrow> pyval \<Rightarrow> nat list \<Rightarrow> py_error + pyval list" where
  "cffi_items s string_type array [] = Inr []"
| "cffi_items s string_type array (i # rest) =
     and_then (cffi_getitem s array i)
       (\<lambda>item.
     and_then (if string_type then ffi_string s item else Inr item)
       (\<lambda>item'.
     and_then (cffi_items s string_type array rest)
       (\<lambda>output. Inr (item' # output))))"

definition cffi_array_from_pointer ::
  "('l \<rightharpoonup> ffi_obj) \<Rightarrow> 'l \<Rightarrow> string \<Rightarrow> pyval \<Rightarrow> int \<Rightarrow> store \<Rightarrow> py_error + pyval list" where
  "cffi_array_from_pointer ffi_registry library name point size_arg s =
     (let ffi_obj = get_ffi ffi_registry library in
      and_then (ffi_cast ffi_obj (name @ ''['' @ str_int size_arg @ '']'') point)
        (\<lambda>array.
      and_then (ffi_sizeof array)
        (\<lambda>total_bytes.
           if total_bytes = 0 then Inr []
           else (let string_type = (name \<in> set string_types)
                 in cffi_items s string_type array [0 ..< nat size_arg]))))"

section \<open>The ctypes engine: the functions of the module\<close>

text \<open>
  Lines 200-291.  The arguments \<open>platform\<close> and \<open>library\<close> are \<^verbatim>\<open>sys.platform\<close>, which
  decided the module's tables, and the library handle.
\<close>

definition ctypes_buffer_from_bytes :: "pyval \<Rightarrow> store \<Rightarrow> py_error + (pyval \<times> store)" where
  "ctypes_buffer_from_bytes initializer s = create_string_buffer initializer s"

definition ctypes_buffer_pointer :: "pyval \<Rightarrow> store \<Rightarrow> py_error + (pyval \<times> store)" where
  "ctypes_buffer_pointer buffer s =
     and_then (ctypes_cast buffer C_char_p s) (\<lambda>(c, s1). ctypes_pointer c s1)"

definition ctypes_cast_fn ::
  "string \<Rightarrow> library \<Rightarrow> string \<Rightarrow> pyval \<Rightarrow> store \<Rightarrow> py_error + (pyval \<times> store)" where
  "ctypes_cast_fn platform library tname v s =
     and_then (is_pointer_type platform library tname)
       (\<lambda>(is_pointer, t). ctypes_cast v (if is_pointer then POINTER t else t) s)"

definition ctypes_bytes_from_buffer :: "store \<Rightarrow> pyval \<Rightarrow> nat option \<Rightarrow> py_error + pyval" where
  "ctypes_bytes_from_buffer s buffer maxlen =
     (if (case buffer of PyInt _ \<Rightarrow> True | PyBool _ \<Rightarrow> True | CObj C_char_p _ \<Rightarrow> True | _ \<Rightarrow> False)
        then map_sum id PyBytes (string_at s buffer maxlen)
      else (case maxlen of
              Some m \<Rightarrow> map_sum id (\<lambda>raw. PyBytes (take m raw)) (ctypes_raw s buffer)
            | None \<Rightarrow> map_sum id PyBytes (ctypes_raw s buffer)))"

definition ctypes_byte_string_from_buffer :: "store \<Rightarrow> pyval \<Rightarrow> py_error + pyval" where
  "ctypes_byte_string_from_buffer s buffer = ctypes_value s buffer"

definition ctypes_null :: pyval where
  "ctypes_null = PyNone"

definition ctypes_is_null :: "store \<Rightarrow> pyval \<Rightarrow> py_error + bool" where
  "ctypes_is_null s point = map_sum id Not (py_bool s point)"

definition ctypes_new ::
  "string \<Rightarrow> library \<Rightarrow> string \<Rightarrow> pyval \<Rightarrow> store \<Rightarrow> py_error + (pyval \<times> store)" where
  "ctypes_new platform library tname v s =
     (let params = (if v \<noteq> PyNone then Some v else None) in
      and_then (is_pointer_type platform library tname)
        (\<lambda>(is_pointer, t).
      and_then (ctypes_construct t params s)
        (\<lambda>(output, s1).
           if is_pointer then ctypes_pointer output s1 else Inr (output, s1))))"

definition ctypes_native :: "store \<Rightarrow> pytype \<Rightarrow> pyval \<Rightarrow> py_error + pyval" where
  "ctypes_native s T v =
     (if isinstance v T then Inr v
      else (case v of
              CObj (ARRAY C_byte n) a \<Rightarrow>
                and_then (addressof v) (\<lambda>p. map_sum id PyBytes (string_at s (PyInt (int p)) (Some n)))
            | _ \<Rightarrow> and_then (ctypes_value s v) (\<lambda>x. py_construct s T x)))"

definition ctypes_deref :: "store \<Rightarrow> pyval \<Rightarrow> py_error + pyval" where
  "ctypes_deref s point = ctypes_getitem s point 0"

definition ctypes_unwrap :: "store \<Rightarrow> pyval \<Rightarrow> py_error + pyval" where
  "ctypes_unwrap s point = ctypes_contents s point"

definition ctypes_struct :: "library \<Rightarrow> string \<Rightarrow> store \<Rightarrow> py_error + (pyval \<times> store)" where
  "ctypes_struct library name s =
     (case library name of
        None \<Rightarrow> Inl AttributeError
      | Some class \<Rightarrow>
          and_then (ctypes_construct class None s) (\<lambda>(v, s1). ctypes_pointer v s1))"



fun ctypes_items :: "store \<Rightarrow> pyval \<Rightarrow> nat list \<Rightarrow> py_error + pyval list" where
  "ctypes_items s array [] = Inr []"
| "ctypes_items s array (i # rest) =
     and_then (ctypes_getitem s array i)
       (\<lambda>item.
     and_then (ctypes_items s array rest)
       (\<lambda>output. Inr (item # output)))"

definition ctypes_array_from_pointer ::
  "string \<Rightarrow> library \<Rightarrow> string \<Rightarrow> pyval \<Rightarrow> int \<Rightarrow> store \<Rightarrow> py_error + pyval list" where
  "ctypes_array_from_pointer platform library tname point size_arg s =
     and_then (is_pointer_type platform library tname)
       (\<lambda>(_, t).
     and_then (ctypes_cast point (POINTER t) s)
       (\<lambda>(array, s1). ctypes_items s1 array [0 ..< nat size_arg]))"

section \<open>Engine selection at import\<close>

text \<open>
  The module body, lines 22-291: the statements under \<^verbatim>\<open>try\<close> bring the cffi engine
  up, and \<^verbatim>\<open>except (ImportError)\<close> brings the ctypes engine up instead.  The two
  arguments say what each block raises, if anything; the result is the value of
  \<^verbatim>\<open>engine\<close>, or the exception that leaves the module.  Only an \<^verbatim>\<open>ImportError\<close> of the
  first block is caught; the class \<^verbatim>\<open>FFIEngineError\<close> (lines 304-310) is defined after
  both blocks and no statement of the module raises it.
\<close>

definition bootstrap :: "py_error option \<Rightarrow> py_error option \<Rightarrow> py_error + string" where
  "bootstrap cffi_raises ctypes_raises =
     (case cffi_raises of
        None \<Rightarrow> Inr ''cffi''
      | Some e \<Rightarrow>
          if e = ImportError then
            (case ctypes_raises of None \<Rightarrow> Inr ''ctypes'' | Some e' \<Rightarrow> Inl e')
          else Inl e)"

section \<open>Type resolution as the specification words it\<close>

text \<open>
  The resolution rule of the dynamic engine in the specification's words, for comparison
  with \<open>cast_type\<close>: a name that ends in \<^verbatim>\<open>" *"\<close> and is in the already-a-pointer set
  is atomic; otherwise a trailing \<^verbatim>\<open>" **"\<close> or \<^verbatim>\<open>" *"\<close> is stripped, the remaining base
  name is looked up, and the result is wrapped in two levels or one.
\<close>

definition resolve_spec :: "string \<Rightarrow> library \<Rightarrow> string \<Rightarrow> py_error + ctype" where
  "resolve_spec platform library tname =
     (if last_chars 2 tname = '' *'' \<and> tname \<in> set (pointer_types platform)
        then lookup_type platform library tname
      else if last_chars 3 tname = '' **''
        then map_sum id (POINTER \<circ> POINTER) (lookup_type platform library (drop_last 3 tname))
      else if last_chars 2 tname = '' *''
        then map_sum id POINTER (lookup_type platform library (drop_last 2 tname))
      else lookup_type platform library tname)"

section \<open>Numbers in memory\<close>

lemma length_nat_le: "length (nat_le k v) = k"
  by (induction k arbitrary: v) simp_all

lemma le_nat_Cons: "le_nat (b # bs) = unat b + 256 * le_nat bs"
  by (simp add: le_nat_def)

lemma le_nat_Nil: "le_nat [] = 0"
  by (simp add: le_nat_def)

lemma le_nat_nat_le: "le_nat (nat_le k v) = v mod 256 ^ k"
proof (induction k arbitrary: v)
  case 0
  show ?case by (simp add: le_nat_Nil)
next
  case (Suc k)
  have u: "unat (of_nat (v mod 256) :: byte) = v mod 256"
    by (simp add: unat_of_nat)
  have "le_nat (nat_le (Suc k) v) = v mod 256 + 256 * ((v div 256) mod 256 ^ k)"
    by (simp add: le_nat_Cons Suc u)
  also have "\<dots> = v mod 256 ^ Suc k"
    by (simp add: mod_mult2_eq)
  finally show ?case .
qed

lemma le_nat_zeros: "le_nat (zeros k) = 0"
  by (induction k) (simp_all add: zeros_def le_nat_Nil le_nat_Cons)

lemma length_zeros: "length (zeros k) = k"
  by (simp add: zeros_def)

section \<open>Buffers: allocation and read-back\<close>

lemma block_at_alloc:
  "block_at (s @ [bs]) (Suc (length s)) = Some bs"
  by (simp add: block_at_def)


lemma read_alloc:
  "n \<le> length bs \<Longrightarrow> read_bytes (s @ [bs]) (Suc (length s)) 0 n = Inr (take n bs)"
  by (simp add: read_bytes_def block_at_alloc)


lemma pointer_target_alloc:
  assumes "a < 256 ^ ptr_size"
  shows "pointer_target (s @ [nat_le ptr_size a]) (Suc (length s)) = Inr a"
  using assms
  by (simp add: pointer_target_def read_alloc length_nat_le le_nat_nat_le)

lemma typeof_uchar_array: "ffi_typeof ffi ''unsigned char[]'' = Inr (CArr (CUInt 1) None)"
  by (simp add: ffi_typeof_def parse_pointer_def parse_base_def builtin_types_def star_or_space_def ffi_def)

lemma cffi_buffer_from_bytes_eq:
  "cffi_buffer_from_bytes (PyBytes bs) s =
     Inr (CData (CArr (CUInt 1) None) (Suc (length s)) (length bs + 1), s @ [bs @ [0]])"
  by (simp add: cffi_buffer_from_bytes_def ffi_new_def typeof_uchar_array array_contents_def alloc_def)

lemma ctypes_buffer_from_bytes_eq:
  "ctypes_buffer_from_bytes (PyBytes bs) s =
     Inr (CObj (ARRAY C_char (length bs + 1)) (Suc (length s)), s @ [bs @ [0]])"
  by (simp add: ctypes_buffer_from_bytes_def create_string_buffer_def alloc_def)

text \<open>
  C1, as stated, fails under both engines: the buffer made from \<^verbatim>\<open>b"\\x01\\x02\\x03"\<close>
  has four bytes, and reading it back without \<^verbatim>\<open>maxlen\<close> returns all four.
\<close>

theorem bytes_round_trip_counterexample:
  "and_then (cffi_buffer_from_bytes (PyBytes [1, 2, 3]) [])
      (\<lambda>(buf, s'). cffi_bytes_from_buffer s' buf None) = Inr (PyBytes [1, 2, 3, 0]) \<and>
   and_then (cffi_buffer_from_bytes (PyBytes [1, 2, 3]) [])
      (\<lambda>(buf, s'). cffi_bytes_from_buffer s' buf None) \<noteq> Inr (PyBytes [1, 2, 3]) \<and>
   and_then (ctypes_buffer_from_bytes (PyBytes [1, 2, 3]) [])
      (\<lambda>(buf, s'). ctypes_bytes_from_buffer s' buf None) = Inr (PyBytes [1, 2, 3, 0]) \<and>
   and_then (ctypes_buffer_from_bytes (PyBytes [1, 2, 3]) [])
      (\<lambda>(buf, s'). ctypes_bytes_from_buffer s' buf None) \<noteq> Inr (PyBytes [1, 2, 3])"
  by (simp add: cffi_buffer_from_bytes_eq ctypes_buffer_from_bytes_eq and_then_def
      cffi_bytes_from_buffer_def ctypes_bytes_from_buffer_def ffi_buffer_def buffer_read_def
      ctypes_raw_def read_bytes_def block_at_def)

text \<open>
  C1, amended: for every byte sequence \<open>b\<close>, under either engine,
  \<^verbatim>\<open>bytes_from_buffer(buffer_from_bytes(b))\<close> with \<^verbatim>\<open>maxlen\<close> unspecified returns \<open>b\<close>
  followed by one zero byte (the terminator that the engine appends to the buffer), and
  with \<^verbatim>\<open>maxlen = len(b)\<close> it returns \<open>b\<close>.
\<close>

theorem bytes_round_trip_terminator:
  "and_then (cffi_buffer_from_bytes (PyBytes b) s) (\<lambda>(buf, s'). cffi_bytes_from_buffer s' buf None)
     = Inr (PyBytes (b @ [0])) \<and>
   and_then (ctypes_buffer_from_bytes (PyBytes b) s) (\<lambda>(buf, s'). ctypes_bytes_from_buffer s' buf None)
     = Inr (PyBytes (b @ [0])) \<and>
   and_then (cffi_buffer_from_bytes (PyBytes b) s)
     (\<lambda>(buf, s'). cffi_bytes_from_buffer s' buf (Some (length b))) = Inr (PyBytes b) \<and>
   and_then (ctypes_buffer_from_bytes (PyBytes b) s)
     (\<lambda>(buf, s'). ctypes_bytes_from_buffer s' buf (Some (length b))) = Inr (PyBytes b)"
  by (simp add: cffi_buffer_from_bytes_eq ctypes_buffer_from_bytes_eq and_then_def
      cffi_bytes_from_buffer_def ctypes_bytes_from_buffer_def ffi_buffer_def buffer_read_def
      ctypes_raw_def read_alloc)

section \<open>Engine selection\<close>

text \<open>
  C2, as stated, fails: when the cffi block raises \<^verbatim>\<open>ImportError\<close> and the ctypes block
  raises \<^verbatim>\<open>ImportError\<close> too, the exception that leaves the module is that
  \<^verbatim>\<open>ImportError\<close>, not \<^verbatim>\<open>FFIEngineError\<close>.
\<close>

theorem bootstrap_import_error_counterexample:
  "bootstrap (Some ImportError) (Some ImportError) = Inl ImportError \<and>
   bootstrap (Some ImportError) (Some ImportError) \<noteq> Inl FFIEngineError"
  by (simp add: bootstrap_def)

text \<open>
  C2, amended: the module selects cffi when its block raises nothing, and ctypes when the
  cffi block raises \<^verbatim>\<open>ImportError\<close> and the ctypes block raises nothing.  If the cffi
  block raises \<^verbatim>\<open>ImportError\<close> and the ctypes block raises \<open>e\<close>, then \<open>e\<close> leaves the
  module unchanged; any other exception of the cffi block leaves the module unchanged.
  The module itself never raises \<^verbatim>\<open>FFIEngineError\<close>: that error leaves the module only
  if one of the two blocks raised it.
\<close>

theorem bootstrap_outcome:
  "bootstrap None c = Inr ''cffi'' \<and>
   bootstrap (Some ImportError) None = Inr ''ctypes'' \<and>
   bootstrap (Some ImportError) (Some e) = Inl e \<and>
   (e \<noteq> ImportError \<longrightarrow> bootstrap (Some e) c = Inl e) \<and>
   (bootstrap a c = Inl FFIEngineError \<longrightarrow> a = Some FFIEngineError \<or> c = Some FFIEngineError)"
  by (auto simp: bootstrap_def split: option.splits if_splits)

theorem bootstrap_outcome_witness:
  "TypeError \<noteq> ImportError \<and> bootstrap (Some TypeError) None = Inl TypeError \<and>
   bootstrap (Some ImportError) (Some FFIEngineError) = Inl FFIEngineError \<and>
   (Some ImportError = Some FFIEngineError \<or> Some FFIEngineError = Some FFIEngineError)"
  using bootstrap_outcome [of None TypeError "Some ImportError"]
    bootstrap_outcome [of "Some FFIEngineError" FFIEngineError "Some ImportError"]
  by (simp add: bootstrap_def)

section \<open>Null tests\<close>

lemma is_null_of_null:
  "cffi_is_null s cffi_null = Inr True \<and> ctypes_is_null s ctypes_null = Inr True"
  by (simp add: cffi_is_null_def cffi_null_def NULL_def eq_NULL_def ctypes_is_null_def
      ctypes_null_def py_bool_def)

lemma is_null_of_new_buffer:
  "and_then (cffi_buffer_from_bytes (PyBytes b) s) (\<lambda>(buf, s'). cffi_is_null s' buf) = Inr False \<and>
   and_then (ctypes_buffer_from_bytes (PyBytes b) s) (\<lambda>(buf, s'). ctypes_is_null s' buf) = Inr False"
  by (simp add: cffi_buffer_from_bytes_eq ctypes_buffer_from_bytes_eq and_then_def
      cffi_is_null_def eq_NULL_def cffi_getitem_def cdata_item_def read_alloc item_value_def
      ctypes_is_null_def py_bool_def)

text \<open>
  C3 holds for the null sentinel and for a new buffer under both engines (the two lemmas
  above), and the declarative engine tests the first entry of a pointer to a pointer.
  The dynamic engine does not: \<^verbatim>\<open>new(library, 'HANDLE *')\<close> gives, under either
  engine, a non-null pointer to a null handle; \<^verbatim>\<open>is_null\<close> of it is true under cffi
  and false under ctypes.
\<close>

theorem is_null_pointer_to_null_handle:
  "and_then (cffi_new [''lib'' \<mapsto> [''HANDLE'' \<mapsto> CPtr CVoid]] ''lib'' ''HANDLE *'' PyNone [])
      (\<lambda>(p, s). cffi_is_null s p) = Inr True \<and>
   and_then (ctypes_new ''linux'' [''HANDLE'' \<mapsto> C_void_p] ''HANDLE *'' PyNone [])
      (\<lambda>(p, s). ctypes_is_null s p) = Inr False"
proof -
  have c: "cffi_new [''lib'' \<mapsto> [''HANDLE'' \<mapsto> CPtr CVoid]] ''lib'' ''HANDLE *'' PyNone []
             = Inr (CData (CPtr (CPtr CVoid)) 1 0, [zeros ptr_size])"
    by (simp add: cffi_new_def get_ffi_def ffi_new_def ffi_typeof_def parse_pointer_def
        parse_base_def builtin_types_def star_or_space_def alloc_def)
  have r: "read_bytes [zeros ptr_size] (Suc 0) 0 ptr_size = Inr (zeros ptr_size)"
    using read_alloc [of ptr_size "zeros ptr_size" "[]"] by (simp add: length_zeros)
  have c2: "cffi_is_null [zeros ptr_size] (CData (CPtr (CPtr CVoid)) 1 0) = Inr True"
    by (simp add: cffi_is_null_def eq_NULL_def cffi_getitem_def cdata_item_def r item_value_def
        le_nat_zeros and_then_def)
  have t: "ctypes_new ''linux'' [''HANDLE'' \<mapsto> C_void_p] ''HANDLE *'' PyNone []
             = Inr (CObj (POINTER C_void_p) 2, [zeros ptr_size, nat_le ptr_size 1])"
    by (simp add: ctypes_new_def is_pointer_type_def last_chars_def drop_last_def
        pointer_types_def lookup_type_def type_map_def ctypes_construct_def ctypes_pointer_def
        alloc_def and_then_def)
  have r2: "read_bytes [zeros ptr_size, nat_le ptr_size (Suc 0)] 2 0 ptr_size
              = Inr (nat_le ptr_size (Suc 0))"
    using read_alloc [of ptr_size "nat_le ptr_size (Suc 0)" "[zeros ptr_size]"]
    by (simp add: length_nat_le numeral_2_eq_2)
  have pos: "0 < ptr_size" by (simp add: ptr_size_def)
  have t2: "ctypes_is_null [zeros ptr_size, nat_le ptr_size 1] (CObj (POINTER C_void_p) 2) = Inr False"
    using pos by (simp add: ctypes_is_null_def py_bool_def r2 le_nat_nat_le)
  show ?thesis
    by (simp only: c c2 t t2 and_then_def sum.case prod.case simp_thms)
qed

section \<open>Arrays of no items\<close>

lemma char_of_48: "char_of (48::nat) = CHR ''0''"
  by (simp add: char_of_def bit_0)

lemma str_int_0: "str_int 0 = ''0''"
  by (simp add: str_int_def char_of_48)

lemma parse_nat_0: "parse_nat ''0'' = Some 0"
  by (simp add: parse_nat_def)

lemma typeof_zero_array:
  "ffi_typeof f (name @ CHR ''['' # str_int 0 @ '']'') =
     (case parse_pointer f name of
        Inl e \<Rightarrow> Inl e
      | Inr t \<Rightarrow> if sizeof_type t = None then Inl ValueError else Inr (CArr t (Some 0)))"
  by (simp add: str_int_0 ffi_typeof_def parse_nat_0 Let_def split: sum.splits)

text \<open>
  C4, as stated, fails: \<^verbatim>\<open>array_from_pointer\<close> resolves the type name before it looks
  at \<^verbatim>\<open>size\<close>, so a name that the engine cannot resolve makes it raise also when
  \<^verbatim>\<open>size\<close> is \<open>0\<close>.  Under ctypes the name \<^verbatim>\<open>FOO\<close>, which is neither in the type table
  nor an attribute of the library, raises \<^verbatim>\<open>AttributeError\<close>.
\<close>

theorem array_from_pointer_unresolved_counterexample:
  "ctypes_array_from_pointer ''linux'' [''HANDLE'' \<mapsto> C_void_p] ''FOO'' PyNone 0 [] =
     Inl AttributeError"
  by (simp add: ctypes_array_from_pointer_def is_pointer_type_def last_chars_def drop_last_def
      pointer_types_def lookup_type_def type_map_def and_then_def)

text \<open>
  C4, amended: under ctypes, if the type name resolves and the pointer value is one that
  ctypes accepts as an address (\<^verbatim>\<open>None\<close> for null, a number, a pointer instance, an
  array), \<^verbatim>\<open>array_from_pointer(library, type_name, p, 0)\<close> returns the empty sequence;
  a type name without pointer suffix that is neither in the type table nor an attribute
  of the library raises \<^verbatim>\<open>AttributeError\<close>.  Under cffi, if the type name resolves to a
  type of known size and the pointer value is a number or a \<^verbatim>\<open>cdata\<close> that holds an
  address (the null pointer included), it returns the empty sequence.
\<close>

theorem array_from_pointer_empty:
  "(is_pointer_type platform library tname = Inr (flag, t) \<and> as_address s point = Inr a \<longrightarrow>
      ctypes_array_from_pointer platform library tname point 0 s = Inr []) \<and>
   (last_chars 2 tname \<noteq> '' *'' \<and> last_chars 3 tname \<noteq> '' **'' \<and>
    map_of (type_map platform) tname = None \<and> library tname = None \<longrightarrow>
      ctypes_array_from_pointer platform library tname point 0 s = Inl AttributeError) \<and>
   (parse_pointer (get_ffi ffi_registry lib) name = Inr el \<and> sizeof_type el = Some k \<and>
    cast_source point False = Inr a \<longrightarrow>
      cffi_array_from_pointer ffi_registry lib name point 0 s = Inr [])"
proof -
  have 1: "ctypes_array_from_pointer platform library tname point 0 s = Inr []"
    if "is_pointer_type platform library tname = Inr (flag, t)" and "as_address s point = Inr a"
    using that
    by (cases point)
       (auto simp: ctypes_array_from_pointer_def and_then_def ctypes_cast_def alloc_def Let_def
          split: sum.splits prod.splits)
  have 2: "ctypes_array_from_pointer platform library tname point 0 s = Inl AttributeError"
    if "last_chars 2 tname \<noteq> '' *''" and "last_chars 3 tname \<noteq> '' **''"
      and "map_of (type_map platform) tname = None" and "library tname = None"
    using that
    by (simp add: ctypes_array_from_pointer_def is_pointer_type_def lookup_type_def and_then_def)
  have 3: "cffi_array_from_pointer ffi_registry lib name point 0 s = Inr []"
    if "parse_pointer (get_ffi ffi_registry lib) name = Inr el" and "sizeof_type el = Some k"
      and "cast_source point False = Inr a"
    using that
    by (simp add: cffi_array_from_pointer_def Let_def ffi_cast_def typeof_zero_array cast_to_def
        array_length_def ffi_sizeof_def and_then_def)
  from 1 2 3 show ?thesis by blast
qed

theorem array_from_pointer_empty_witness:
  "is_pointer_type ''linux'' [''HANDLE'' \<mapsto> C_void_p] ''int'' = Inr (False, C_int) \<and>
   as_address [] PyNone = Inr 0 \<and>
   ctypes_array_from_pointer ''linux'' [''HANDLE'' \<mapsto> C_void_p] ''int'' PyNone 0 [] = Inr [] \<and>
   last_chars 2 ''FOO'' \<noteq> '' *'' \<and> last_chars 3 ''FOO'' \<noteq> '' **'' \<and>
   map_of (type_map ''linux'') ''FOO'' = None \<and>
   [''HANDLE'' \<mapsto> C_void_p] ''FOO'' = None \<and>
   ctypes_array_from_pointer ''linux'' [''HANDLE'' \<mapsto> C_void_p] ''FOO'' PyNone 0 [] =
     Inl AttributeError \<and>
   parse_pointer (get_ffi Map.empty ''lib'') ''int'' = Inr (CSInt 4) \<and>
   sizeof_type (CSInt 4) = Some 4 \<and>
   cast_source NULL False = Inr 0 \<and>
   cffi_array_from_pointer Map.empty ''lib'' ''int'' NULL 0 [] = Inr []"
proof -
  have h1: "is_pointer_type ''linux'' [''HANDLE'' \<mapsto> C_void_p] ''int'' = Inr (False, C_int)"
    by (simp add: is_pointer_type_def last_chars_def drop_last_def pointer_types_def
        lookup_type_def type_map_def)
  have h2: "as_address [] PyNone = Inr 0"
    by (simp add: as_address_def)
  have h3: "last_chars 2 ''FOO'' \<noteq> '' *''" "last_chars 3 ''FOO'' \<noteq> '' **''"
    "map_of (type_map ''linux'') ''FOO'' = None" "[''HANDLE'' \<mapsto> C_void_p] ''FOO'' = None"
    by (simp_all add: last_chars_def type_map_def)
  have h4: "parse_pointer (get_ffi Map.empty ''lib'') ''int'' = Inr (CSInt 4)"
    by (simp add: get_ffi_def ffi_def parse_pointer_def parse_base_def builtin_types_def
        star_or_space_def)
  have h5: "sizeof_type (CSInt 4) = Some 4"
    by simp
  have h6: "cast_source NULL False = Inr 0"
    by (simp add: cast_source_def NULL_def)
  note t1 = array_from_pointer_empty
    [of "''linux''" "[''HANDLE'' \<mapsto> C_void_p]" "''int''" False C_int "[]" PyNone 0
        Map.empty "''lib''" "''int''" "CSInt 4" 4]
  note t2 = array_from_pointer_empty
    [of "''linux''" "[''HANDLE'' \<mapsto> C_void_p]" "''FOO''" False C_int "[]" PyNone 0
        Map.empty "''lib''" "''int''" "CSInt 4" 4]
  note t3 = array_from_pointer_empty
    [of "''linux''" "[''HANDLE'' \<mapsto> C_void_p]" "''int''" False C_int "[]" NULL 0
        Map.empty "''lib''" "''int''" "CSInt 4" 4]
  have c1: "ctypes_array_from_pointer ''linux'' [''HANDLE'' \<mapsto> C_void_p] ''int'' PyNone 0 []
              = Inr []"
    using t1 h1 h2 by blast
  have c2: "ctypes_array_from_pointer ''linux'' [''HANDLE'' \<mapsto> C_void_p] ''FOO'' PyNone 0 []
              = Inl AttributeError"
    using t2 h3 by blast
  have c3: "cffi_array_from_pointer Map.empty ''lib'' ''int'' NULL 0 [] = Inr []"
    using t3 h4 h5 h6 by blast
  show ?thesis
    using h1 h2 h3 h4 h5 h6 c1 c2 c3 by blast
qed

section \<open>Coercion to host values\<close>

lemma ctypes_native_pass_through:
  "isinstance v T \<Longrightarrow> ctypes_native s T v = Inr v"
  by (simp add: ctypes_native_def)

text \<open>
  C5 holds under the dynamic engine (the lemma above).  The declarative engine has no
  such test: a byte string handed to \<^verbatim>\<open>native(byte_cls, _)\<close> goes to \<^verbatim>\<open>ffi.buffer\<close>,
  and text handed to \<^verbatim>\<open>native(str_cls, _)\<close> goes to \<^verbatim>\<open>ffi.string\<close>; both refuse a
  value that is not \<^verbatim>\<open>cdata\<close>.
\<close>

theorem native_pass_through_bytes:
  "isinstance (PyBytes [1, 2, 3]) Byte_cls \<and>
   cffi_native [] Byte_cls (PyBytes [1, 2, 3]) = Inl TypeError \<and>
   ctypes_native [] Byte_cls (PyBytes [1, 2, 3]) = Inr (PyBytes [1, 2, 3]) \<and>
   isinstance (PyStr [104, 105]) Str_cls \<and>
   cffi_native [] Str_cls (PyStr [104, 105]) = Inl TypeError \<and>
   ctypes_native [] Str_cls (PyStr [104, 105]) = Inr (PyStr [104, 105])"
  by (simp add: cffi_native_def ctypes_native_def ffi_buffer_def ffi_string_def and_then_def)

section \<open>Structs from buffers\<close>







section \<open>Dereference and unwrap\<close>

lemma host_value_not_instance:
  "map_sum id PyBytes x \<noteq> Inr (CObj t a)" "map_sum id PyStr y \<noteq> Inr (CObj t a)"
  by (cases x; simp) (cases y; simp)

text \<open>
  C7, as stated, fails under the dynamic engine: for the pointer that
  \<^verbatim>\<open>new(library, 'int *', 5)\<close> returns, \<^verbatim>\<open>deref\<close> gives the host number \<open>5\<close> and
  \<^verbatim>\<open>unwrap\<close> gives the \<^verbatim>\<open>c_int\<close> instance the pointer points to.
\<close>

theorem deref_unwrap_counterexample:
  "and_then (ctypes_new ''linux'' Map.empty ''int *'' (PyInt 5) [])
      (\<lambda>(p, s). ctypes_deref s p) = Inr (PyInt 5) \<and>
   and_then (ctypes_new ''linux'' Map.empty ''int *'' (PyInt 5) [])
      (\<lambda>(p, s). ctypes_unwrap s p) = Inr (CObj C_int 1)"
proof -
  have n: "ctypes_new ''linux'' Map.empty ''int *'' (PyInt 5) []
             = Inr (CObj (POINTER C_int) 2, [nat_le 4 5, nat_le ptr_size (Suc 0)])"
    by (simp add: ctypes_new_def is_pointer_type_def last_chars_def drop_last_def
        pointer_types_def lookup_type_def type_map_def ctypes_construct_def ctypes_pointer_def
        alloc_def and_then_def)
  have small: "Suc 0 < 256 ^ ptr_size" by (simp add: ptr_size_def)
  have pt: "pointer_target ([nat_le 4 5, nat_le ptr_size (Suc 0)]) 2 = Inr (Suc 0)"
    using pointer_target_alloc [OF small, of "[nat_le 4 5]"] by (simp add: numeral_2_eq_2)
  have rd: "read_bytes ([nat_le 4 5, nat_le ptr_size (Suc 0)]) (Suc 0) 0 4 = Inr (nat_le 4 5)"
    by (simp add: read_bytes_def block_at_def length_nat_le)
  have sv: "signed_value 4 5 = 5" by (simp add: signed_value_def)
  have d: "ctypes_deref ([nat_le 4 5, nat_le ptr_size (Suc 0)]) (CObj (POINTER C_int) 2)
             = Inr (PyInt 5)"
    by (simp add: ctypes_deref_def ctypes_getitem_def pt ctypes_item_def rd simple_value_def
        le_nat_nat_le sv)
  have u: "ctypes_unwrap ([nat_le 4 5, nat_le ptr_size (Suc 0)]) (CObj (POINTER C_int) 2)
             = Inr (CObj C_int 1)"
    by (simp add: ctypes_unwrap_def ctypes_contents_def pt)
  show ?thesis
    by (simp only: n d u and_then_def sum.case prod.case simp_thms)
qed

text \<open>
  C7, amended: under the declarative engine \<^verbatim>\<open>deref\<close> and \<^verbatim>\<open>unwrap\<close> yield the same
  result on every pointer.  Under the dynamic engine they yield the same result on a
  pointer instance whose target type is not a fundamental type (a structure, a pointer,
  an array).  On a non-null pointer to a fundamental type \<^verbatim>\<open>unwrap\<close> returns the ctypes
  instance pointed to, and \<^verbatim>\<open>deref\<close> returns the host value of the bytes stored there:
  a number for the integer types, a one-byte string for \<^verbatim>\<open>c_char\<close>, \<^verbatim>\<open>None\<close> or the
  address for \<^verbatim>\<open>c_void_p\<close>, \<^verbatim>\<open>None\<close> for a null \<^verbatim>\<open>c_char_p\<close> or \<^verbatim>\<open>c_wchar_p\<close>; whenever
  \<^verbatim>\<open>deref\<close> returns on such a pointer, what it returns is not a ctypes instance.
\<close>

theorem deref_unwrap_by_engine:
  "cffi_deref s p = cffi_unwrap s p \<and>
   (\<not> is_simple t \<longrightarrow>
      ctypes_deref s (CObj (POINTER t) a) = ctypes_unwrap s (CObj (POINTER t) a)) \<and>
   (is_simple t \<and> ctypes_unwrap s (CObj (POINTER t) a) = Inr v \<longrightarrow>
      v = CObj t (le_nat (take ptr_size (s ! (a - 1)))) \<and>
      ctypes_deref s (CObj (POINTER t) a) \<noteq> Inr v) \<and>
   (is_simple t \<and> pointer_target s a = Inr target \<and> target \<noteq> 0 \<and>
    read_bytes s target 0 (ctypes_sizeof_type t) = Inr bs \<longrightarrow>
      ctypes_unwrap s (CObj (POINTER t) a) = Inr (CObj t target) \<and>
      ctypes_deref s (CObj (POINTER t) a) = simple_value s t bs \<and>
      (t = C_int \<longrightarrow>
         ctypes_deref s (CObj (POINTER t) a) = Inr (PyInt (signed_value 4 (le_nat bs)))) \<and>
      (t = C_byte \<longrightarrow>
         ctypes_deref s (CObj (POINTER t) a) = Inr (PyInt (signed_value 1 (le_nat bs)))) \<and>
      (t \<in> {C_uint, C_size_t, C_ulong} \<longrightarrow>
         ctypes_deref s (CObj (POINTER t) a) = Inr (PyInt (int (le_nat bs)))) \<and>
      (t = C_char \<longrightarrow> ctypes_deref s (CObj (POINTER t) a) = Inr (PyBytes bs)) \<and>
      (t = C_void_p \<longrightarrow>
         ctypes_deref s (CObj (POINTER t) a) =
           Inr (if le_nat bs = 0 then PyNone else PyInt (int (le_nat bs)))) \<and>
      (t \<in> {C_char_p, C_wchar_p} \<and> le_nat bs = 0 \<longrightarrow>
         ctypes_deref s (CObj (POINTER t) a) = Inr PyNone)) \<and>
   (is_simple t \<and> ctypes_deref s (CObj (POINTER t) a) = Inr x \<longrightarrow>
      (\<forall>t' a'. x \<noteq> CObj t' a'))"
proof -
  have 1: "cffi_deref s p = cffi_unwrap s p"
    by (simp add: cffi_deref_def cffi_unwrap_def)
  have 2: "ctypes_deref s (CObj (POINTER t) a) = ctypes_unwrap s (CObj (POINTER t) a)"
    if "\<not> is_simple t"
    using that
    by (auto simp: ctypes_deref_def ctypes_unwrap_def ctypes_getitem_def ctypes_contents_def
        ctypes_item_def split: sum.splits)
  have 3: "v = CObj t (le_nat (take ptr_size (s ! (a - 1)))) \<and>
           ctypes_deref s (CObj (POINTER t) a) \<noteq> Inr v"
    if "is_simple t" and "ctypes_unwrap s (CObj (POINTER t) a) = Inr v"
    using that
    by (cases t)
       (auto simp: ctypes_deref_def ctypes_unwrap_def ctypes_getitem_def ctypes_contents_def
          ctypes_item_def simple_value_def pointer_target_def read_bytes_def block_at_def
          host_value_not_instance
          split: sum.splits if_splits option.splits)
  have d: "ctypes_deref s (CObj (POINTER t) a) = simple_value s t bs"
    if "is_simple t" and "pointer_target s a = Inr target" and "target \<noteq> 0"
      and "read_bytes s target 0 (ctypes_sizeof_type t) = Inr bs"
    using that
    by (simp add: ctypes_deref_def ctypes_getitem_def ctypes_item_def)
  have u: "ctypes_unwrap s (CObj (POINTER t) a) = Inr (CObj t target)"
    if "pointer_target s a = Inr target" and "target \<noteq> 0"
    using that by (simp add: ctypes_unwrap_def ctypes_contents_def)
  have 4: "ctypes_unwrap s (CObj (POINTER t) a) = Inr (CObj t target) \<and>
      ctypes_deref s (CObj (POINTER t) a) = simple_value s t bs \<and>
      (t = C_int \<longrightarrow>
         ctypes_deref s (CObj (POINTER t) a) = Inr (PyInt (signed_value 4 (le_nat bs)))) \<and>
      (t = C_byte \<longrightarrow>
         ctypes_deref s (CObj (POINTER t) a) = Inr (PyInt (signed_value 1 (le_nat bs)))) \<and>
      (t \<in> {C_uint, C_size_t, C_ulong} \<longrightarrow>
         ctypes_deref s (CObj (POINTER t) a) = Inr (PyInt (int (le_nat bs)))) \<and>
      (t = C_char \<longrightarrow> ctypes_deref s (CObj (POINTER t) a) = Inr (PyBytes bs)) \<and>
      (t = C_void_p \<longrightarrow>
         ctypes_deref s (CObj (POINTER t) a) =
           Inr (if le_nat bs = 0 then PyNone else PyInt (int (le_nat bs)))) \<and>
      (t \<in> {C_char_p, C_wchar_p} \<and> le_nat bs = 0 \<longrightarrow>
         ctypes_deref s (CObj (POINTER t) a) = Inr PyNone)"
    if h: "is_simple t" "pointer_target s a = Inr target" "target \<noteq> 0"
      "read_bytes s target 0 (ctypes_sizeof_type t) = Inr bs"
    using d [OF h] u [OF h(2) h(3)]
    by (auto simp: simple_value_def)
  have 5: "\<forall>t' a'. x \<noteq> CObj t' a'"
    if "is_simple t" and "ctypes_deref s (CObj (POINTER t) a) = Inr x"
    using that
    by (cases t)
       (auto simp: ctypes_deref_def ctypes_getitem_def ctypes_item_def simple_value_def
          host_value_not_instance
          split: sum.splits if_splits option.splits)
  from 1 2 3 4 5 show ?thesis by blast
qed

theorem deref_unwrap_by_engine_witness:
  "\<not> is_simple (Lib ''S'' 4) \<and>
   ctypes_deref [zeros 4, nat_le ptr_size (Suc 0)] (CObj (POINTER (Lib ''S'' 4)) 2) =
     ctypes_unwrap [zeros 4, nat_le ptr_size (Suc 0)] (CObj (POINTER (Lib ''S'' 4)) 2) \<and>
   is_simple C_int \<and>
   pointer_target [nat_le 4 5, nat_le ptr_size (Suc 0)] 2 = Inr (Suc 0) \<and>
   read_bytes [nat_le 4 5, nat_le ptr_size (Suc 0)] (Suc 0) 0 (ctypes_sizeof_type C_int) =
     Inr (nat_le 4 5) \<and>
   ctypes_unwrap [nat_le 4 5, nat_le ptr_size (Suc 0)] (CObj (POINTER C_int) 2) =
     Inr (CObj C_int 1) \<and>
   ctypes_deref [nat_le 4 5, nat_le ptr_size (Suc 0)] (CObj (POINTER C_int) 2) \<noteq>
     Inr (CObj C_int 1) \<and>
   ctypes_deref [nat_le 4 5, nat_le ptr_size (Suc 0)] (CObj (POINTER C_int) 2) =
     Inr (PyInt 5)"
proof -
  let ?s = "[nat_le 4 5, nat_le ptr_size (Suc 0)]"
  have small: "Suc 0 < 256 ^ ptr_size" by (simp add: ptr_size_def)
  have pt: "pointer_target ?s 2 = Inr (Suc 0)"
    using pointer_target_alloc [OF small, of "[nat_le 4 5]"] by (simp add: numeral_2_eq_2)
  have rd: "read_bytes ?s (Suc 0) 0 (ctypes_sizeof_type C_int) = Inr (nat_le 4 5)"
    by (simp add: read_bytes_def block_at_def length_nat_le)
  have a: "\<not> is_simple (Lib ''S'' 4)" and b: "is_simple C_int" and nz: "Suc 0 \<noteq> 0"
    by simp_all
  have sv: "signed_value 4 (le_nat (nat_le 4 5)) = 5"
    by (simp add: le_nat_nat_le signed_value_def)
  have e: "ctypes_deref [zeros 4, nat_le ptr_size (Suc 0)] (CObj (POINTER (Lib ''S'' 4)) 2) =
        ctypes_unwrap [zeros 4, nat_le ptr_size (Suc 0)] (CObj (POINTER (Lib ''S'' 4)) 2)"
    using a deref_unwrap_by_engine
      [where s = "[zeros 4, nat_le ptr_size (Suc 0)]" and t = "Lib ''S'' 4" and a = 2]
    by blast
  note t = deref_unwrap_by_engine
    [where s = ?s and t = C_int and a = 2 and target = "Suc 0" and bs = "nat_le 4 5"
       and v = "CObj C_int 1"]
  have u: "ctypes_unwrap ?s (CObj (POINTER C_int) 2) = Inr (CObj C_int (Suc 0))"
    using t b pt rd nz by blast
  then have u1: "ctypes_unwrap ?s (CObj (POINTER C_int) 2) = Inr (CObj C_int 1)"
    by simp
  have d: "ctypes_deref ?s (CObj (POINTER C_int) 2) =
             Inr (PyInt (signed_value 4 (le_nat (nat_le 4 5))))"
    using t b pt rd nz by blast
  then have d5: "ctypes_deref ?s (CObj (POINTER C_int) 2) = Inr (PyInt 5)"
    by (simp only: sv)
  have ne: "ctypes_deref ?s (CObj (POINTER C_int) 2) \<noteq> Inr (CObj C_int 1)"
    using t b u1 by blast
  show ?thesis
    using a b pt rd e u1 ne d5 by blast
qed

section \<open>String-pointer type names and the platform\<close>

text \<open>
  C8, as stated, fails: the table that \<^verbatim>\<open>array_from_pointer\<close> consults for string
  decoding (the declarative engine's \<open>string_types\<close>) is a literal of the function and
  holds the four Windows names whatever the platform is.
\<close>

theorem string_types_counterexample:
  "''LPSTR'' \<in> set string_types \<and> ''LPCSTR'' \<in> set string_types \<and>
   ''LPWSTR'' \<in> set string_types \<and> ''LPCWSTR'' \<in> set string_types"
  by (simp add: string_types_def)

text \<open>
  C8, amended: for each of the names \<^verbatim>\<open>LPSTR\<close>, \<^verbatim>\<open>LPCSTR\<close>, \<^verbatim>\<open>LPWSTR\<close>, \<^verbatim>\<open>LPCWSTR\<close>,
  the dynamic engine's tables \<^verbatim>\<open>_pointer_types\<close> and \<^verbatim>\<open>_type_map\<close> hold the name exactly
  when the platform is \<^verbatim>\<open>win32\<close>, and the declarative engine's table of string types
  in \<^verbatim>\<open>array_from_pointer\<close> holds it on every platform.
\<close>

theorem windows_names_by_engine:
  "(n \<in> {''LPSTR'', ''LPCSTR'', ''LPWSTR'', ''LPCWSTR''} \<longrightarrow>
      (n \<in> set (pointer_types platform) \<longleftrightarrow> platform = ''win32'') \<and>
      (map_of (type_map platform) n \<noteq> None \<longleftrightarrow> platform = ''win32'') \<and>
      n \<in> set string_types)"
  by (auto simp: pointer_types_def type_map_def string_types_def)

theorem windows_names_by_engine_witness:
  "''LPSTR'' \<in> {''LPSTR'', ''LPCSTR'', ''LPWSTR'', ''LPCWSTR''} \<and>
   ''LPSTR'' \<notin> set (pointer_types ''linux'') \<and>
   map_of (type_map ''linux'') ''LPSTR'' = None \<and>
   ''LPSTR'' \<in> set (pointer_types ''win32'') \<and>
   ''LPSTR'' \<in> set string_types"
  using windows_names_by_engine [of "''LPSTR''" "''linux''"]
    windows_names_by_engine [of "''LPSTR''" "''win32''"]
  by simp

section \<open>Type resolution in the dynamic engine\<close>

lemma double_suffix:
  assumes "last_chars 3 tname = '' **''"
  shows "last_chars 2 (drop_last 1 tname) = '' *''"
    and "drop_last 2 (drop_last 1 tname) = drop_last 3 tname"
proof -
  have eq: "tname = drop_last 3 tname @ '' **''"
    using assms append_take_drop_id [of "length tname - 3" tname]
    by (simp add: last_chars_def drop_last_def)
  define b where "b = drop_last 3 tname"
  have t: "tname = b @ '' **''" using eq b_def by simp
  show "last_chars 2 (drop_last 1 tname) = '' *''"
    by (simp add: t last_chars_def drop_last_def)
  show "drop_last 2 (drop_last 1 tname) = drop_last 3 tname"
    by (simp add: t last_chars_def drop_last_def)
qed

text \<open>
  C9, as stated, fails: for \<^verbatim>\<open>"char **"\<close> with a library that declares \<^verbatim>\<open>char\<close>, the
  code never looks the base name \<^verbatim>\<open>char\<close> up.  It removes the last \<^verbatim>\<open>*\<close>, finds
  \<^verbatim>\<open>"char *"\<close> in the already-a-pointer set, resolves that atomically and adds one level
  of indirection, where the specification's rule strips \<^verbatim>\<open>" **"\<close> and wraps the base
  type twice.
\<close>

theorem cast_type_double_pointer_counterexample:
  "cast_type ''linux'' [''char'' \<mapsto> C_char] ''char **'' = Inr (POINTER C_char_p) \<and>
   resolve_spec ''linux'' [''char'' \<mapsto> C_char] ''char **'' = Inr (POINTER (POINTER C_char)) \<and>
   cast_type ''linux'' [''char'' \<mapsto> C_char] ''char **'' \<noteq>
     resolve_spec ''linux'' [''char'' \<mapsto> C_char] ''char **''"
  by (simp add: cast_type_def is_pointer_type_def resolve_spec_def lookup_type_def
      type_map_def pointer_types_def last_chars_def drop_last_def)

text \<open>
  C9, amended: in the dynamic engine a name that ends in \<^verbatim>\<open>" **"\<close> loses its last
  \<^verbatim>\<open>*\<close>; if what remains is in the already-a-pointer set it is resolved atomically and
  wrapped in one level of indirection, otherwise the base name before \<^verbatim>\<open>" **"\<close> is
  resolved (built-in table first, else the library's attribute) and wrapped in two levels.
  A name that ends in \<^verbatim>\<open>" *"\<close> and is not in the set has the suffix stripped, the base
  resolved and one level added; a name in the set, or without a suffix, is resolved as it
  is.  A lookup that fails surfaces unchanged.
\<close>

theorem cast_type_resolution:
  "cast_type platform library tname =
    (if last_chars 3 tname = '' **'' then
       (if drop_last 1 tname \<in> set (pointer_types platform)
        then map_sum id POINTER (lookup_type platform library (drop_last 1 tname))
        else map_sum id (POINTER \<circ> POINTER) (lookup_type platform library (drop_last 3 tname)))
     else if last_chars 2 tname = '' *'' \<and> tname \<notin> set (pointer_types platform)
        then map_sum id POINTER (lookup_type platform library (drop_last 2 tname))
     else lookup_type platform library tname)"
proof (cases "last_chars 3 tname = '' **''")
  case True
  note d = double_suffix [OF True]
  show ?thesis
  proof (cases "drop_last 1 tname \<in> set (pointer_types platform)")
    case known: True
    with True show ?thesis
      unfolding cast_type_def is_pointer_type_def Let_def
      by (cases "lookup_type platform library (drop_last 1 tname)") simp_all
  next
    case unknown: False
    with True d show ?thesis
      unfolding cast_type_def is_pointer_type_def Let_def
      by (cases "lookup_type platform library (drop_last 3 tname)") simp_all
  qed
next
  case False
  show ?thesis
  proof (cases "last_chars 2 tname = '' *'' \<and> tname \<notin> set (pointer_types platform)")
    case ptr: True
    with False show ?thesis
      unfolding cast_type_def is_pointer_type_def Let_def
      by (cases "lookup_type platform library (drop_last 2 tname)") simp_all
  next
    case plain: False
    with False show ?thesis
      unfolding cast_type_def is_pointer_type_def Let_def
      by (cases "lookup_type platform library tname") auto
  qed
qed

section \<open>Allocation in the declarative engine\<close>





end
